theory Spec2Isabelle
  imports Main
begin

section \<open>JavaScript and Python primitives used by the sources\<close>

text \<open>
  A JavaScript string whose content comes from outside the program (a command typed by
  the user, a message of the server, the text of a log entry) is a list of UTF-16 code
  units, each a number. The fixed ASCII texts of the program (class names, colours, the
  frames that the Python API builds) are kept as \<open>string\<close>, and \<open>js_of\<close> gives the code
  units of such a text.
\<close>

type_synonym jsstring = "nat list"

definition js_of :: "string \<Rightarrow> jsstring" where
  "js_of s = map (of_char :: char \<Rightarrow> nat) s"

definition startsWith :: "jsstring \<Rightarrow> jsstring \<Rightarrow> bool" where
  \<comment> \<open>\<^verbatim>\<open>s.startsWith(p)\<close>\<close>
  "startsWith s p = (take (length p) s = p)"

definition substring :: "jsstring \<Rightarrow> nat \<Rightarrow> jsstring" where
  \<comment> \<open>\<^verbatim>\<open>s.substring(k)\<close>: the rest of the string from index k, empty when k is past the end\<close>
  "substring s k = drop k s"

definition isWhiteSpace :: "nat \<Rightarrow> bool" where
  \<comment> \<open>the code units that \<^verbatim>\<open>parseInt\<close> and \<^verbatim>\<open>trim\<close> strip: the white space of ECMAScript
      (tab, vertical tab, form feed, U+FEFF and the space separators U+0020, U+00A0,
      U+1680, U+2000 to U+200A, U+202F, U+205F, U+3000) and its line terminators (line
      feed, carriage return, U+2028, U+2029)\<close>
  "isWhiteSpace u =
     (u \<in> set [0x09, 0x0B, 0x0C, 0xFEFF, 0x20, 0xA0, 0x1680, 0x202F, 0x205F, 0x3000,
                0x0A, 0x0D, 0x2028, 0x2029]
      \<or> (0x2000 \<le> u \<and> u \<le> 0x200A))"

definition trim :: "jsstring \<Rightarrow> jsstring" where
  \<comment> \<open>\<^verbatim>\<open>s.trim()\<close>\<close>
  "trim s = rev (dropWhile isWhiteSpace (rev (dropWhile isWhiteSpace s)))"

definition digitValue :: "nat \<Rightarrow> nat option" where
  \<comment> \<open>the value of a code unit as a digit, for a radix up to 16\<close>
  "digitValue k =
     (if 48 \<le> k \<and> k \<le> 57 then Some (k - 48)
      else if 97 \<le> k \<and> k \<le> 102 then Some (k - 87)
      else if 65 \<le> k \<and> k \<le> 70 then Some (k - 55)
      else None)"

definition isRadixDigit :: "nat \<Rightarrow> nat \<Rightarrow> bool" where
  "isRadixDigit R k = (case digitValue k of None \<Rightarrow> False | Some v \<Rightarrow> v < R)"

definition radixValue :: "nat \<Rightarrow> jsstring \<Rightarrow> nat" where
  "radixValue R Z = foldl (\<lambda>a k. a * R + (case digitValue k of None \<Rightarrow> 0 | Some v \<Rightarrow> v)) 0 Z"

definition parseInt :: "jsstring \<Rightarrow> int option" where
  \<comment> \<open>\<^verbatim>\<open>parseInt(s)\<close> with no radix argument; \<open>None\<close> is NaN. Leading white space is
      skipped, one sign is read, a \<^verbatim>\<open>0x\<close> prefix selects radix 16 (a leading zero alone
      does not change the radix), and the longest prefix of digits is the value; anything
      after it is ignored. The value is kept exact: the comparisons made on it (with 0, 1
      and 16) come out the same as on the rounded double.\<close>
  "parseInt s =
     (let S = dropWhile isWhiteSpace s;
          sign = (if take 1 S = js_of ''-'' then - 1 else 1 :: int);
          S1 = (if take 1 S = js_of ''+'' \<or> take 1 S = js_of ''-'' then drop 1 S else S);
          hex = (take 2 S1 = js_of ''0x'' \<or> take 2 S1 = js_of ''0X'');
          R = (if hex then 16 else 10 :: nat);
          S2 = (if hex then drop 2 S1 else S1);
          Z = takeWhile (isRadixDigit R) S2
      in if Z = [] then None else Some (sign * int (radixValue R Z)))"

definition digit_char :: "nat \<Rightarrow> char" where
  "digit_char d = char_of (48 + d)"

function str_nat :: "nat \<Rightarrow> string" where
  \<comment> \<open>Python's \<^verbatim>\<open>str(n)\<close> for a non-negative integer\<close>
  "str_nat n = (if n < 10 then [digit_char n] else str_nat (n div 10) @ [digit_char (n mod 10)])"
  by pat_completeness auto
termination
  by (relation "measure id") auto

declare str_nat.simps [simp del]

definition zfill :: "nat \<Rightarrow> string \<Rightarrow> string" where
  "zfill w s = replicate (w - length s) CHR ''0'' @ s"

definition fmt_02d :: "int \<Rightarrow> string" where
  \<comment> \<open>Python's format specification \<^verbatim>\<open>{n:02d}\<close>: the sign, then the digits padded with zeros
      so that the whole field has at least two characters\<close>
  "fmt_02d n =
     (if n < 0 then CHR ''-'' # zfill 1 (str_nat (nat (- n))) else zfill 2 (str_nat (nat n)))"

section \<open>The web simulator (simulator.js)\<close>

record panel =
  panel_id :: nat
  className :: string
  background :: string

datatype js_error = TypeError

definition initializeDome :: "panel list" where
  \<comment> \<open>the sixteen panels pushed by \<^verbatim>\<open>initializeDome\<close>, numbered 1 to 16, all closed\<close>
  "initializeDome =
     map (\<lambda>i. \<lparr>panel_id = i, className = ''panel closed'', background = ''''\<rparr>) [1..<17]"

definition setPanelState :: "panel \<Rightarrow> string \<Rightarrow> panel" where
  \<comment> \<open>\<open>background\<close> holds the text that the code assigns to \<^verbatim>\<open>panel.style.background\<close>\<close>
  "setPanelState p state =
     p\<lparr>className := ''panel '' @ state,
       background := (if state = ''open'' then ''#4CAF50''
                      else if state = ''closed'' then ''#333''
                      else background p)\<rparr>"

definition setPanelAt :: "panel list \<Rightarrow> int \<Rightarrow> string \<Rightarrow> js_error + panel list" where
  \<comment> \<open>\<^verbatim>\<open>this.setPanelState(this.panels[k], state)\<close>: an index outside the array reads
      \<^verbatim>\<open>undefined\<close>, and setting a property of it throws\<close>
  "setPanelAt panels k state =
     (if 0 \<le> k \<and> nat k < length panels
      then Inr (panels[nat k := setPanelState (panels ! nat k) state])
      else Inl TypeError)"

definition updatePanelsFromCommand :: "panel list \<Rightarrow> jsstring \<Rightarrow> js_error + panel list" where
  "updatePanelsFromCommand panels command =
     (if startsWith command (js_of '':OP'') then
        (case parseInt (substring command 3) of
           None \<Rightarrow> Inr panels
         | Some panelNum \<Rightarrow>
             if panelNum = 0 then Inr (map (\<lambda>p. setPanelState p ''open'') panels)
             else if panelNum \<ge> 1 \<and> panelNum \<le> 16 then setPanelAt panels (panelNum - 1) ''open''
             else Inr panels)
      else if startsWith command (js_of '':CL'') then
        (case parseInt (substring command 3) of
           None \<Rightarrow> Inr panels
         | Some panelNum \<Rightarrow>
             if panelNum = 0 then Inr (map (\<lambda>p. setPanelState p ''closed'') panels)
             else if panelNum \<ge> 1 \<and> panelNum \<le> 16 then setPanelAt panels (panelNum - 1) ''closed''
             else Inr panels)
      else Inr panels)"

definition isAsciiSpace :: "char \<Rightarrow> bool" where
  \<comment> \<open>the separators of the tokens of a class attribute\<close>
  "isAsciiSpace c = (c \<in> set [CHR 0x09, CHR 0x0A, CHR 0x0C, CHR 0x0D, CHR 0x20])"

fun tokens :: "string \<Rightarrow> string \<Rightarrow> string list" where
  "tokens cur [] = (if cur = [] then [] else [cur])"
| "tokens cur (c # cs) =
     (if isAsciiSpace c then (if cur = [] then tokens [] cs else cur # tokens [] cs)
      else tokens (cur @ [c]) cs)"

definition classList :: "panel \<Rightarrow> string list" where
  \<comment> \<open>\<^verbatim>\<open>panel.classList\<close>: the tokens of the class name\<close>
  "classList p = tokens [] (className p)"

definition togglePanel :: "panel list \<Rightarrow> int \<Rightarrow> js_error + panel list" where
  \<comment> \<open>reading \<^verbatim>\<open>classList\<close> of a panel that does not exist throws\<close>
  "togglePanel panels panelNum =
     (if 0 \<le> panelNum - 1 \<and> nat (panelNum - 1) < length panels then
        (if ''open'' \<in> set (classList (panels ! nat (panelNum - 1)))
         then setPanelAt panels (panelNum - 1) ''closed''
         else setPanelAt panels (panelNum - 1) ''open'')
      else Inl TypeError)"

subsection \<open>The command log\<close>

record log_entry =
  entry_class :: string
  textContent :: jsstring

function trimLog :: "log_entry list \<Rightarrow> log_entry list" where
  \<comment> \<open>\<^verbatim>\<open>while (logContainer.children.length > 100) logContainer.removeChild(logContainer.firstChild)\<close>\<close>
  "trimLog children = (if length children > 100 then trimLog (tl children) else children)"
  by pat_completeness auto
termination
  by (relation "measure length") auto

declare trimLog.simps [simp del]

definition addLogEntry :: "jsstring \<Rightarrow> log_entry list \<Rightarrow> jsstring \<Rightarrow> string \<Rightarrow> log_entry list" where
  \<comment> \<open>\<open>now\<close> is the text of \<^verbatim>\<open>new Date().toLocaleTimeString()\<close> at the call; the children of
      the log container are the state\<close>
  "addLogEntry now children message type =
     trimLog (children @
       [\<lparr>entry_class = ''log-entry '' @ type,
         textContent = js_of ''['' @ now @ js_of ''] '' @ message\<rparr>])"

subsection \<open>Sequences\<close>

text \<open>
  The servo position constants of the protocol reference: \<^verbatim>\<open>_OPN\<close>, \<^verbatim>\<open>_CLS\<close>, \<^verbatim>\<open>_MID\<close> and
  \<^verbatim>\<open>_NP\<close> (no pulse).
\<close>

definition OPN :: int where "OPN = 1000"
definition CLS :: int where "CLS = 2000"
definition MID :: int where "MID = 1750"
definition NP :: int where "NP = - 1"

record seq_step =
  time_ms :: nat
  servo_positions :: "int list"
  step_description :: string

record sequence =
  seq_name :: string
  seq_description :: string
  steps :: "seq_step list"

definition waveSequence :: sequence where
  "waveSequence =
     \<lparr>seq_name = ''R2-D2 Wave'',
      seq_description = ''Classic wave sequence'',
      steps =
        [\<lparr>time_ms = 200,
          servo_positions = [2000, 2000, 2000, 2000, 2000, 2000, 2000, 2000, 2000, 2000, 2000, 2000],
          step_description = ''Close all panels''\<rparr>,
         \<lparr>time_ms = 300,
          servo_positions = [1000, 2000, 2000, 2000, 2000, 2000, 2000, 2000, 2000, 2000, 2000, 2000],
          step_description = ''Open panel 1''\<rparr>,
         \<lparr>time_ms = 300,
          servo_positions = [2000, 1000, 2000, 2000, 2000, 2000, 2000, 2000, 2000, 2000, 2000, 2000],
          step_description = ''Open panel 2''\<rparr>,
         \<lparr>time_ms = 300,
          servo_positions = [2000, 2000, 1000, 2000, 2000, 2000, 2000, 2000, 2000, 2000, 2000, 2000],
          step_description = ''Open panel 3''\<rparr>,
         \<lparr>time_ms = 300,
          servo_positions = [2000, 2000, 2000, 1000, 2000, 2000, 2000, 2000, 2000, 2000, 2000, 2000],
          step_description = ''Open panel 4''\<rparr>,
         \<lparr>time_ms = 600,
          servo_positions = [2000, 2000, 2000, 2000, 2000, 2000, 2000, 2000, 2000, 2000, 2000, 2000],
          step_description = ''Close all panels''\<rparr>]\<rparr>"

definition screamSequence :: sequence where
  "screamSequence =
     \<lparr>seq_name = ''R2-D2 Scream'',
      seq_description = ''Scream sequence with all panels'',
      steps =
        [\<lparr>time_ms = 200,
          servo_positions = [2000, 2000, 2000, 2000, 2000, 2000, 2000, 2000, 2000, 2000, 2000, 2000],
          step_description = ''Close all panels''\<rparr>,
         \<lparr>time_ms = 1000,
          servo_positions = [1000, 1000, 1000, 1000, 1000, 1000, 1000, 1000, 1000, 1000, 1000, 1000],
          step_description = ''SCREAM! Open all panels''\<rparr>,
         \<lparr>time_ms = 1500,
          servo_positions = [2000, 2000, 2000, 2000, 2000, 2000, 2000, 2000, 2000, 2000, 2000, 2000],
          step_description = ''Close all panels''\<rparr>]\<rparr>"

definition updatePanelsFromSequence :: "panel list \<Rightarrow> int list \<Rightarrow> panel list" where
  \<comment> \<open>\<^verbatim>\<open>servoPositions.forEach((position, index) => ...)\<close>: positions past the last panel
      and positions other than 1000 and 2000 change nothing\<close>
  "updatePanelsFromSequence ps servoPositions =
     foldl (\<lambda>acc (position, index).
              if index < length acc then
                (if position = 1000 then acc[index := setPanelState (acc ! index) ''open'']
                 else if position = 2000 then acc[index := setPanelState (acc ! index) ''closed'']
                 else acc)
              else acc)
       ps (zip servoPositions [0..<length servoPositions])"

definition updateSequenceStatus :: "panel list \<Rightarrow> sequence option \<Rightarrow> int \<Rightarrow> panel list" where
  \<comment> \<open>the panel part of \<^verbatim>\<open>updateSequenceStatus(data)\<close>, with \<open>current_step\<close> the step index
      reported by the server; an index with no step reads \<^verbatim>\<open>undefined\<close> and is skipped\<close>
  "updateSequenceStatus ps current current_step =
     (case current of
        None \<Rightarrow> ps
      | Some s \<Rightarrow>
          if 0 \<le> current_step \<and> nat current_step < length (steps s)
          then updatePanelsFromSequence ps (servo_positions (steps s ! nat current_step))
          else ps)"

subsection \<open>The simulator object and its event handlers\<close>

text \<open>
  The state is what the handlers read back: the panels, the current sequence and the
  children of the log container. The elements that the code only writes (the clock, the
  connection status, the command count, the progress bar, the disabled flags of the
  buttons) are left out. What comes from outside is an input of the handler: the time
  text of a log entry, the value of the command input, a message of the socket, and the
  server's answer to a request, which is either the message of the error thrown by
  \<^verbatim>\<open>fetch\<close> or by the JSON decoding, or the decoded result.
\<close>

record simulator =
  sim_panels :: "panel list"
  currentSequence :: "sequence option"
  commandLog :: "log_entry list"

record server_result =
  r_success :: bool
  r_message :: jsstring
  r_error :: jsstring
  r_steps :: jsstring

type_synonym answer = "jsstring + server_result"

definition new_simulator :: "log_entry list \<Rightarrow> simulator" where
  \<comment> \<open>the object after its constructor; \<open>initial_log\<close> is what the page has in the log
      container when it loads\<close>
  "new_simulator initial_log =
     \<lparr>sim_panels = initializeDome, currentSequence = None, commandLog = initial_log\<rparr>"

text \<open>
  The log messages start with marks that are not ASCII. The source file as committed
  holds them as the following characters (a text saved in one encoding and read in
  another), given here by their code units.
\<close>

definition CHECK_MARK :: jsstring where "CHECK_MARK = [0xE2, 0x153, 0x2026]"
definition CROSS_MARK :: jsstring where "CROSS_MARK = [0xE2, 0x152]"
definition ROCKET_MARK :: jsstring where "ROCKET_MARK = [0xF0, 0x178, 0x161, 0x20AC]"
definition PAUSE_MARK :: jsstring where "PAUSE_MARK = [0xE2, 0xB8, 0xEF, 0xB8]"
definition PLAY_MARK :: jsstring where "PLAY_MARK = [0xE2, 0x2013, 0xB6, 0xEF, 0xB8]"
definition STOP_MARK :: jsstring where "STOP_MARK = [0xF0, 0x178, 0x203A, 0x2018]"

definition addLog :: "jsstring \<Rightarrow> jsstring \<Rightarrow> string \<Rightarrow> simulator \<Rightarrow> simulator" where
  \<comment> \<open>\<^verbatim>\<open>this.addLogEntry(message, type)\<close> on the simulator object\<close>
  "addLog now message type sim = sim\<lparr>commandLog := addLogEntry now (commandLog sim) message type\<rparr>"

definition type_error_message :: jsstring where
  \<comment> \<open>\<^verbatim>\<open>error.message\<close> of the TypeError thrown when a property of \<^verbatim>\<open>undefined\<close> is set;
      the wording is the engine's, here that of V8\<close>
  "type_error_message = js_of ''Cannot set properties of undefined (setting 'className')''"

definition sendCommand :: "jsstring \<Rightarrow> jsstring \<Rightarrow> answer \<Rightarrow> simulator \<Rightarrow> simulator" where
  \<comment> \<open>\<open>input\<close> is the value of the command input when the handler runs. The panels are
      updated only after a success result; an error thrown inside the \<^verbatim>\<open>try\<close> block, by the
      request or by the panel update, ends in the \<^verbatim>\<open>catch\<close> clause\<close>
  "sendCommand now input response sim =
     (let command = trim input in
      if command = [] then sim
      else
        (case response of
           Inl error_message \<Rightarrow>
             addLog now (CROSS_MARK @ js_of '' Error sending command: '' @ error_message) ''error'' sim
         | Inr result \<Rightarrow>
             if r_success result then
               (let sim1 = addLog now (CHECK_MARK @ js_of '' '' @ command @ js_of '' - '' @ r_message result)
                             ''success'' sim
                in case updatePanelsFromCommand (sim_panels sim1) command of
                     Inr ps \<Rightarrow> sim1\<lparr>sim_panels := ps\<rparr>
                   | Inl TypeError \<Rightarrow>
                       addLog now (CROSS_MARK @ js_of '' Error sending command: '' @ type_error_message)
                         ''error'' sim1)
             else
               addLog now (CROSS_MARK @ js_of '' '' @ command @ js_of '' - '' @ r_message result)
                 ''error'' sim))"

definition loadSequence :: "jsstring \<Rightarrow> sequence \<Rightarrow> answer \<Rightarrow> simulator \<Rightarrow> simulator" where
  "loadSequence now sequenceData response sim =
     (case response of
        Inl error_message \<Rightarrow>
          addLog now (CROSS_MARK @ js_of '' Error loading sequence: '' @ error_message) ''error'' sim
      | Inr result \<Rightarrow>
          if r_success result then
            addLog now (CHECK_MARK @ js_of '' Loaded sequence: '' @ js_of (seq_name sequenceData) @
                       js_of '' ('' @ r_steps result @ js_of '' steps)'') ''success''
              (sim\<lparr>currentSequence := Some sequenceData\<rparr>)
          else
            addLog now (CROSS_MARK @ js_of '' Failed to load sequence: '' @ r_error result) ''error'' sim)"

definition loadWaveSequence :: "jsstring \<Rightarrow> answer \<Rightarrow> simulator \<Rightarrow> simulator" where
  "loadWaveSequence now response sim = loadSequence now waveSequence response sim"

definition loadScreamSequence :: "jsstring \<Rightarrow> answer \<Rightarrow> simulator \<Rightarrow> simulator" where
  "loadScreamSequence now response sim = loadSequence now screamSequence response sim"

definition startSequence :: "jsstring \<Rightarrow> answer \<Rightarrow> simulator \<Rightarrow> simulator" where
  "startSequence now response sim =
     (case response of
        Inl error_message \<Rightarrow>
          addLog now (CROSS_MARK @ js_of '' Error starting sequence: '' @ error_message) ''error'' sim
      | Inr result \<Rightarrow>
          if r_success result then addLog now (ROCKET_MARK @ js_of '' Sequence started'') ''success'' sim
          else addLog now (CROSS_MARK @ js_of '' Failed to start sequence: '' @ r_error result) ''error'' sim)"

definition pauseSequence :: "jsstring \<Rightarrow> answer \<Rightarrow> simulator \<Rightarrow> simulator" where
  "pauseSequence now response sim =
     (case response of
        Inl error_message \<Rightarrow>
          addLog now (CROSS_MARK @ js_of '' Error pausing sequence: '' @ error_message) ''error'' sim
      | Inr result \<Rightarrow>
          if r_success result then addLog now (PAUSE_MARK @ js_of '' Sequence paused'') ''info'' sim
          else sim)"

definition resumeSequence :: "jsstring \<Rightarrow> answer \<Rightarrow> simulator \<Rightarrow> simulator" where
  "resumeSequence now response sim =
     (case response of
        Inl error_message \<Rightarrow>
          addLog now (CROSS_MARK @ js_of '' Error resuming sequence: '' @ error_message) ''error'' sim
      | Inr result \<Rightarrow>
          if r_success result then addLog now (PLAY_MARK @ js_of '' Sequence resumed'') ''success'' sim
          else sim)"

definition sequence_status :: "int \<Rightarrow> simulator \<Rightarrow> simulator" where
  \<comment> \<open>\<^verbatim>\<open>this.updateSequenceStatus(data)\<close> on the simulator object, with
      \<open>current_step\<close> the step index of the data\<close>
  "sequence_status current_step sim =
     sim\<lparr>sim_panels := updateSequenceStatus (sim_panels sim) (currentSequence sim) current_step\<rparr>"

definition stopSequence :: "jsstring \<Rightarrow> answer \<Rightarrow> simulator \<Rightarrow> simulator" where
  \<comment> \<open>after a success result the status is updated with \<^verbatim>\<open>current_step: 0\<close>\<close>
  "stopSequence now response sim =
     (case response of
        Inl error_message \<Rightarrow>
          addLog now (CROSS_MARK @ js_of '' Error stopping sequence: '' @ error_message) ''error'' sim
      | Inr result \<Rightarrow>
          if r_success result
          then sequence_status 0 (addLog now (STOP_MARK @ js_of '' Sequence stopped'') ''info'' sim)
          else sim)"

definition clearLog :: "simulator \<Rightarrow> simulator" where
  "clearLog sim =
     sim\<lparr>commandLog := [\<lparr>entry_class = ''log-entry'', textContent = js_of ''Log cleared...''\<rparr>]\<rparr>"

definition refreshLog ::
  "jsstring \<Rightarrow> jsstring + (jsstring \<times> jsstring) list \<Rightarrow> simulator \<Rightarrow> simulator" where
  \<comment> \<open>the result is the list of the commands the server has logged, each with the time
      text of its timestamp and its command text; the entries replace the log and are not
      trimmed\<close>
  "refreshLog now response sim =
     (case response of
        Inl error_message \<Rightarrow>
          addLog now (CROSS_MARK @ js_of '' Error refreshing log: '' @ error_message) ''error'' sim
      | Inr commands \<Rightarrow>
          sim\<lparr>commandLog :=
                map (\<lambda>(time_text, command).
                       \<lparr>entry_class = ''log-entry info'',
                        textContent = js_of ''['' @ time_text @ js_of ''] '' @ command\<rparr>)
                  commands\<rparr>)"

definition panel_click :: "nat \<Rightarrow> simulator \<Rightarrow> simulator" where
  \<comment> \<open>the click handler of panel \<open>i\<close>; an error thrown in it leaves the state as it was\<close>
  "panel_click i sim =
     (case togglePanel (sim_panels sim) (int i) of
        Inr ps \<Rightarrow> sim\<lparr>sim_panels := ps\<rparr>
      | Inl TypeError \<Rightarrow> sim)"

datatype sim_event =
    Connect
  | Disconnect
  | SequenceStatus int
  | SequenceCompleted jsstring
  | Status jsstring
  | SendCommand jsstring answer
  | LoadWaveSequence answer
  | LoadScreamSequence answer
  | StartSequence answer
  | PauseSequence answer
  | ResumeSequence answer
  | StopSequence answer
  | ClearLog
  | RefreshLog "jsstring + (jsstring \<times> jsstring) list"
  | PanelClick nat

fun sim_step :: "jsstring \<Rightarrow> sim_event \<Rightarrow> simulator \<Rightarrow> simulator" where
  \<comment> \<open>one run of a handler registered by \<^verbatim>\<open>initializeEventListeners\<close>,
      \<^verbatim>\<open>initializeSocket\<close> or \<^verbatim>\<open>initializeDome\<close>; a quick command button is
      \<open>SendCommand\<close> with the command of the button; panel clicks exist for 1 to 16\<close>
  "sim_step now Connect sim = addLog now (js_of ''Connected to SITH simulator'') ''success'' sim"
| "sim_step now Disconnect sim = addLog now (js_of ''Disconnected from SITH simulator'') ''error'' sim"
| "sim_step now (SequenceStatus current_step) sim = sequence_status current_step sim"
| "sim_step now (SequenceCompleted message) sim = addLog now message ''success'' sim"
| "sim_step now (Status message) sim = addLog now message ''info'' sim"
| "sim_step now (SendCommand input response) sim = sendCommand now input response sim"
| "sim_step now (LoadWaveSequence response) sim = loadWaveSequence now response sim"
| "sim_step now (LoadScreamSequence response) sim = loadScreamSequence now response sim"
| "sim_step now (StartSequence response) sim = startSequence now response sim"
| "sim_step now (PauseSequence response) sim = pauseSequence now response sim"
| "sim_step now (ResumeSequence response) sim = resumeSequence now response sim"
| "sim_step now (StopSequence response) sim = stopSequence now response sim"
| "sim_step now ClearLog sim = clearLog sim"
| "sim_step now (RefreshLog response) sim = refreshLog now response sim"
| "sim_step now (PanelClick i) sim = (if 1 \<le> i \<and> i \<le> 16 then panel_click i sim else sim)"

fun sim_run :: "(jsstring \<times> sim_event) list \<Rightarrow> simulator \<Rightarrow> simulator" where
  "sim_run [] sim = sim"
| "sim_run ((now, ev) # evs) sim = sim_run evs (sim_step now ev sim)"

text \<open>
  The invariant on step data, in the words of the specification: a position is a pulse
  width between 500 and 2500, or one of the four constants.
\<close>

definition valid_position :: "int \<Rightarrow> bool" where
  "valid_position p = ((500 \<le> p \<and> p \<le> 2500) \<or> p = OPN \<or> p = CLS \<or> p = MID \<or> p = NP)"

definition valid_sequence :: "sequence \<Rightarrow> bool" where
  "valid_sequence s = list_all (\<lambda>st. list_all valid_position (servo_positions st)) (steps s)"

section \<open>The embedded Python API (class SITHAPI of the Pyodide test harnesses)\<close>

text \<open>
  Python values as far as the API builds them. What the API does to the outside is kept
  as a trace of events: a line printed, an HTTP POST with its JSON body (if it has one), an HTTP GET. The
  server is not part of the model: its answer to a request is given by the environment,
  as a function of the trace so far and the request, and is either the decoded JSON body
  or the text of the exception raised.
\<close>

datatype pyval =
    PyBool bool
  | PyStr string
  | PyList "pyval list"
  | PyDict "(string \<times> pyval) list"

datatype io_event = Print string | Post string "pyval option" | Get string

record pyenv =
  HAS_REQUESTS :: bool
  http :: "io_event list \<Rightarrow> io_event \<Rightarrow> string + pyval"

record SITHAPI =
  base_url :: string
  session :: bool

definition SITHAPI_init :: "pyenv \<Rightarrow> string \<Rightarrow> io_event list \<Rightarrow> SITHAPI \<times> io_event list" where
  \<comment> \<open>\<^verbatim>\<open>__init__\<close>: the session exists exactly when the requests module was imported\<close>
  "SITHAPI_init env url w =
     (\<lparr>base_url = url, session = HAS_REQUESTS env\<rparr>, w @ [Print ''SITH API initialized''])"

definition request :: "pyenv \<Rightarrow> io_event \<Rightarrow> io_event list \<Rightarrow> pyval \<times> io_event list" where
  \<comment> \<open>\<^verbatim>\<open>try: return response.json()  except Exception as e: return {'success': False, 'error': str(e)}\<close>\<close>
  "request env ev w =
     ((case http env w ev of
         Inl e \<Rightarrow> PyDict [(''success'', PyBool False), (''error'', PyStr e)]
       | Inr r \<Rightarrow> r),
      w @ [ev])"

definition send_command :: "pyenv \<Rightarrow> SITHAPI \<Rightarrow> string \<Rightarrow> io_event list \<Rightarrow> pyval \<times> io_event list" where
  "send_command env self command w =
     (if HAS_REQUESTS env \<and> session self
      then request env (Post (base_url self @ ''/api/command'') (Some (PyDict [(''command'', PyStr command)]))) w
      else (PyDict [(''success'', PyBool True), (''message'', PyStr (''Simulated: '' @ command))],
            w @ [Print (''Simulated command: '' @ command)]))"

definition open_panel :: "pyenv \<Rightarrow> SITHAPI \<Rightarrow> int \<Rightarrow> io_event list \<Rightarrow> pyval \<times> io_event list" where
  "open_panel env self panel_num w =
     (if 1 \<le> panel_num \<and> panel_num \<le> 16
      then send_command env self ('':OP'' @ fmt_02d panel_num) w
      else (PyDict [(''success'', PyBool False), (''error'', PyStr ''Panel number must be 1-16'')], w))"

definition close_panel :: "pyenv \<Rightarrow> SITHAPI \<Rightarrow> int \<Rightarrow> io_event list \<Rightarrow> pyval \<times> io_event list" where
  "close_panel env self panel_num w =
     (if 1 \<le> panel_num \<and> panel_num \<le> 16
      then send_command env self ('':CL'' @ fmt_02d panel_num) w
      else (PyDict [(''success'', PyBool False), (''error'', PyStr ''Panel number must be 1-16'')], w))"

definition open_all_panels :: "pyenv \<Rightarrow> SITHAPI \<Rightarrow> io_event list \<Rightarrow> pyval \<times> io_event list" where
  "open_all_panels env self w = send_command env self '':OP00'' w"

definition close_all_panels :: "pyenv \<Rightarrow> SITHAPI \<Rightarrow> io_event list \<Rightarrow> pyval \<times> io_event list" where
  "close_all_panels env self w = send_command env self '':CL00'' w"

definition run_sequence :: "pyenv \<Rightarrow> SITHAPI \<Rightarrow> string \<Rightarrow> io_event list \<Rightarrow> pyval \<times> io_event list" where
  \<comment> \<open>\<open>sequence_name\<close> is the text that the f-string puts after \<^verbatim>\<open>:SE\<close>\<close>
  "run_sequence env self sequence_name w = send_command env self ('':SE'' @ sequence_name) w"

definition get_status :: "pyenv \<Rightarrow> SITHAPI \<Rightarrow> io_event list \<Rightarrow> pyval \<times> io_event list" where
  "get_status env self w =
     (if HAS_REQUESTS env \<and> session self
      then request env (Get (base_url self @ ''/api/status'')) w
      else (PyDict [(''success'', PyBool True), (''status'', PyStr ''simulation_mode''),
                    (''panels'', PyStr ''all_closed'')], w))"

definition get_panels :: "pyenv \<Rightarrow> SITHAPI \<Rightarrow> io_event list \<Rightarrow> pyval \<times> io_event list" where
  "get_panels env self w =
     (if HAS_REQUESTS env \<and> session self
      then request env (Get (base_url self @ ''/api/panels'')) w
      else (PyDict [(''success'', PyBool True), (''panels'', PyList (replicate 16 (PyBool False)))], w))"

definition reset :: "pyenv \<Rightarrow> SITHAPI \<Rightarrow> io_event list \<Rightarrow> pyval \<times> io_event list" where
  "reset env self w =
     (if HAS_REQUESTS env \<and> session self
      then request env (Post (base_url self @ ''/api/reset'') None) w
      else (PyDict [(''success'', PyBool True), (''message'', PyStr ''Simulated: Reset complete'')],
            w @ [Print ''Simulated: Resetting R2-D2'']))"

text \<open>A script is a list of calls on the one API object; no method assigns to \<open>self\<close>.\<close>

datatype api_call =
    OpenPanel int
  | ClosePanel int
  | OpenAllPanels
  | CloseAllPanels
  | RunSequence string
  | Reset

fun run_call :: "pyenv \<Rightarrow> SITHAPI \<Rightarrow> api_call \<Rightarrow> io_event list \<Rightarrow> pyval \<times> io_event list" where
  "run_call env self (OpenPanel n) w = open_panel env self n w"
| "run_call env self (ClosePanel n) w = close_panel env self n w"
| "run_call env self OpenAllPanels w = open_all_panels env self w"
| "run_call env self CloseAllPanels w = close_all_panels env self w"
| "run_call env self (RunSequence name) w = run_sequence env self name w"
| "run_call env self Reset w = reset env self w"

fun run_calls :: "pyenv \<Rightarrow> SITHAPI \<Rightarrow> api_call list \<Rightarrow> io_event list \<Rightarrow> io_event list" where
  "run_calls env self [] w = w"
| "run_calls env self (c # cs) w = run_calls env self cs (snd (run_call env self c w))"

section \<open>The protocol core of the specification\<close>

text \<open>
  The specification describes a command decoder, a dispatcher, a sequence engine and a
  configuration store. None of them is among the sources: the simulator and the API only
  send frames to a server. The definitions of this section are therefore written from
  the words of the specification; what they take from the sources is the sequence data,
  the position constants and the identifiers of the protocol reference.
\<close>

subsection \<open>Decoder\<close>

text \<open>
  Modelled from the spec: the Command value of section 3 (family, opcode, target,
  arguments and the raw frame) and the decode-time errors of section 7. The target 00 is
  the distinguished \<open>AllTargets\<close> (the spec's All), never the actuator 0.
\<close>

datatype family = Panel | HoloProjector | Display | Sound | Setup | I2C | AltSound | AltHP

datatype target = AllTargets | Actuator nat

datatype argument = ArgInt int | ArgHex nat | ArgChar char | ArgStr string

datatype decode_error = MalformedCommand | UnknownOpcode | ArgumentError

record command =
  family :: family
  opcode :: string
  target :: target
  arguments :: "argument list"
  raw :: string

definition isDigit :: "char \<Rightarrow> bool" where
  \<comment> \<open>Modelled from the spec: a decimal digit of a target or sequence id.\<close>
  "isDigit c = (48 \<le> (of_char c :: nat) \<and> (of_char c :: nat) \<le> 57)"

definition isAlnum :: "char \<Rightarrow> bool" where
  \<comment> \<open>Modelled from the spec: a character of an alphanumeric sequence name.\<close>
  "isAlnum c =
     (let k = of_char c :: nat
      in (48 \<le> k \<and> k \<le> 57) \<or> (65 \<le> k \<and> k \<le> 90) \<or> (97 \<le> k \<and> k \<le> 122))"

definition spec_decode_panel :: "string \<Rightarrow> string \<Rightarrow> decode_error + command" where
  \<comment> \<open>Modelled from the spec: the decoder of the Panel family, which the sources lack
      (section 4.2). The two characters after the colon are the opcode; the rest is a
      two-digit target from 00 to 16, where 00 is \<open>AllTargets\<close>. For \<^verbatim>\<open>SE\<close> the two digits
      are a sequence id, which the catalogue bounds rather than the decoder, and an
      alphanumeric name is accepted in their place; the name is kept as the one argument.\<close>
  "spec_decode_panel frame body =
     (let op = take 2 body; rest = drop 2 body in
      if op \<notin> set [''SE'', ''OP'', ''CL'', ''RC'', ''ST'', ''HD''] then Inl UnknownOpcode
      else if length rest = 2 \<and> list_all isDigit rest then
        (let n = radixValue 10 (js_of rest) in
         if op \<noteq> ''SE'' \<and> 16 < n then Inl ArgumentError
         else Inr \<lparr>family = Panel, opcode = op,
                   target = (if n = 0 then AllTargets else Actuator n),
                   arguments = [], raw = frame\<rparr>)
      else if op = ''SE'' \<and> rest \<noteq> [] \<and> list_all isAlnum rest then
        Inr \<lparr>family = Panel, opcode = op, target = AllTargets, arguments = [ArgStr rest],
              raw = frame\<rparr>
      else Inl ArgumentError)"

definition spec_decode :: "string \<Rightarrow> (decode_error + command) option" where
  \<comment> \<open>Modelled from the spec: the classifier (section 4.2). A frame is given without
      its terminator. Only the Panel family is decoded here; for the other seven start
      characters the result is \<open>None\<close>, which stands for "not covered by this model".\<close>
  "spec_decode frame =
     (case frame of
        [] \<Rightarrow> Some (Inl MalformedCommand)
      | c # body \<Rightarrow>
          if c = CHR '':'' then Some (spec_decode_panel frame body)
          else if c \<in> set ''*@$#&!%'' then None
          else Some (Inl MalformedCommand))"

subsection \<open>Sequence engine\<close>

text \<open>
  Modelled from the spec: the SequenceRun of section 3 and the engine that owns it
  (section 4.4). A sequence is the simulator's sequence record, with actuator \<open>i\<close> at
  index \<open>i - 1\<close> of \<open>servo_positions\<close>. The engine keeps the one current run, the runs it
  has retired, the HAL calls issued so far, each with its origin (the dispatcher or the
  run that issued it), and the completion notifications emitted so far.
\<close>

datatype seq_ref = SeqId nat | SeqName string

datatype hal_call = SetPosition nat int | Release nat

datatype origin = Direct | Run nat

datatype seq_state = Idle | Running | Paused | Completed | Stopped

record sequence_run =
  run_id :: nat
  run_seq :: sequence
  current_step_index :: nat
  run_state :: seq_state
  started_at :: nat
  elapsed_ms :: nat

datatype completion_reason = Finished | Superseded

record notification =
  note_run :: nat
  note_reason :: completion_reason
  total_elapsed_ms :: nat
  step_count :: nat

datatype engine_error = InvalidTransition | UnknownSequence

record engine =
  registry :: "(seq_ref \<times> sequence) list"
  active :: "sequence_run option"
  retired :: "sequence_run list"
  hal_log :: "(origin \<times> hal_call) list"
  notifications :: "notification list"
  next_run_id :: nat
  clock :: nat

definition builtin_catalogue :: "(seq_ref \<times> sequence) list" where
  \<comment> \<open>Modelled from the spec: the builtin catalogue (section 6). The ids are those of
      the protocol reference (\<^verbatim>\<open>:SE01\<close> Scream, \<^verbatim>\<open>:SE02\<close> Wave); the steps are those of the
      simulator. The catalogued sequences whose steps are in no source file are left out.\<close>
  "builtin_catalogue =
     [(SeqId 1, screamSequence), (SeqName ''scream'', screamSequence),
      (SeqId 2, waveSequence), (SeqName ''wave'', waveSequence)]"

definition new_engine :: "(seq_ref \<times> sequence) list \<Rightarrow> engine" where
  \<comment> \<open>Modelled from the spec: the engine at construction, holding its registry and no run.\<close>
  "new_engine reg =
     \<lparr>registry = reg, active = None, retired = [], hal_log = [], notifications = [],
      next_run_id = 0, clock = 0\<rparr>"

definition is_active :: "sequence_run \<Rightarrow> bool" where
  \<comment> \<open>Modelled from the spec: a run is active while it is Running or Paused.\<close>
  "is_active r = (run_state r = Running \<or> run_state r = Paused)"

definition engine_start :: "seq_ref \<Rightarrow> engine \<Rightarrow> engine_error + engine" where
  \<comment> \<open>Modelled from the spec: \<^verbatim>\<open>start\<close> (section 4.4). The sequence is looked up; a run
      that is active (Running or Paused) is stopped and a notification with reason
      Superseded is emitted for it; the new run begins at step 0, Running. The spec does
      not say what an unknown sequence gives: here an error, with the engine unchanged.\<close>
  "engine_start ref e =
     (case map_of (registry e) ref of
        None \<Rightarrow> Inl UnknownSequence
      | Some s \<Rightarrow>
          (let e1 = (case active e of
                       None \<Rightarrow> e
                     | Some old \<Rightarrow>
                         if is_active old
                         then e\<lparr>retired := retired e @ [old\<lparr>run_state := Stopped\<rparr>],
                                notifications := notifications e @
                                  [\<lparr>note_run = run_id old, note_reason = Superseded,
                                    total_elapsed_ms = elapsed_ms old,
                                    step_count = current_step_index old\<rparr>]\<rparr>
                         else e\<lparr>retired := retired e @ [old]\<rparr>)
           in Inr (e1\<lparr>active := Some \<lparr>run_id = next_run_id e, run_seq = s,
                                        current_step_index = 0, run_state = Running,
                                        started_at = clock e, elapsed_ms = 0\<rparr>,
                        next_run_id := Suc (next_run_id e)\<rparr>)))"

definition engine_stop :: "engine \<Rightarrow> engine_error + engine" where
  \<comment> \<open>Modelled from the spec: explicit \<^verbatim>\<open>stop\<close>, valid from Running and from Paused.\<close>
  "engine_stop e =
     (case active e of
        None \<Rightarrow> Inl InvalidTransition
      | Some r \<Rightarrow>
          if is_active r then Inr (e\<lparr>active := Some (r\<lparr>run_state := Stopped\<rparr>)\<rparr>)
          else Inl InvalidTransition)"

definition engine_pause :: "engine \<Rightarrow> engine_error + engine" where
  \<comment> \<open>Modelled from the spec: \<^verbatim>\<open>pause\<close> while not Running is an InvalidTransition.\<close>
  "engine_pause e =
     (case active e of
        None \<Rightarrow> Inl InvalidTransition
      | Some r \<Rightarrow>
          if run_state r = Running then Inr (e\<lparr>active := Some (r\<lparr>run_state := Paused\<rparr>)\<rparr>)
          else Inl InvalidTransition)"

definition engine_resume :: "engine \<Rightarrow> engine_error + engine" where
  \<comment> \<open>Modelled from the spec: \<^verbatim>\<open>resume\<close> while not Paused is an InvalidTransition.\<close>
  "engine_resume e =
     (case active e of
        None \<Rightarrow> Inl InvalidTransition
      | Some r \<Rightarrow>
          if run_state r = Paused then Inr (e\<lparr>active := Some (r\<lparr>run_state := Running\<rparr>)\<rparr>)
          else Inl InvalidTransition)"

definition step_calls :: "seq_step \<Rightarrow> hal_call list" where
  \<comment> \<open>Modelled from the spec: the HAL calls of one step, one \<^verbatim>\<open>servos.set_position\<close> for
      each actuator 1..N in order, skipping the no-op sentinel.\<close>
  "step_calls st =
     map (\<lambda>(p, i). SetPosition (Suc i) p)
       (filter (\<lambda>(p, i). p \<noteq> NP) (zip (servo_positions st) [0..<length (servo_positions st)]))"

definition engine_tick :: "nat \<Rightarrow> engine \<Rightarrow> engine" where
  \<comment> \<open>Modelled from the spec: advancement (section 4.4). The virtual clock moves by
      \<open>dt\<close>; a Running run gains \<open>dt\<close> of elapsed time and every step from the current index
      on whose offset has been reached fires, in list order; after the last step the run is
      Completed and a notification is emitted. A step's \<open>time_ms\<close> is taken as its offset.\<close>
  "engine_tick dt e =
     (case active e of
        None \<Rightarrow> e\<lparr>clock := clock e + dt\<rparr>
      | Some r \<Rightarrow>
          if run_state r \<noteq> Running then e\<lparr>clock := clock e + dt\<rparr>
          else
            (let el = elapsed_ms r + dt;
                 due = takeWhile (\<lambda>st. time_ms st \<le> el) (drop (current_step_index r) (steps (run_seq r)));
                 idx = current_step_index r + length due;
                 finished = (length (steps (run_seq r)) \<le> idx)
             in e\<lparr>clock := clock e + dt,
                  active := Some (r\<lparr>elapsed_ms := el, current_step_index := idx,
                                    run_state := (if finished then Completed else Running)\<rparr>),
                  hal_log := hal_log e @ map (Pair (Run (run_id r))) (concat (map step_calls due)),
                  notifications := notifications e @
                    (if finished
                     then [\<lparr>note_run = run_id r, note_reason = Finished,
                            total_elapsed_ms = el, step_count = idx\<rparr>]
                     else [])\<rparr>))"

datatype engine_op = Start seq_ref | Stop | Pause | Resume | Tick nat

fun engine_apply :: "engine_op \<Rightarrow> engine \<Rightarrow> engine" where
  \<comment> \<open>Modelled from the spec: one control call or tick; a call that is refused is a
      no-op on the engine.\<close>
  "engine_apply (Start ref) e = (case engine_start ref e of Inl _ \<Rightarrow> e | Inr e' \<Rightarrow> e')"
| "engine_apply Stop e = (case engine_stop e of Inl _ \<Rightarrow> e | Inr e' \<Rightarrow> e')"
| "engine_apply Pause e = (case engine_pause e of Inl _ \<Rightarrow> e | Inr e' \<Rightarrow> e')"
| "engine_apply Resume e = (case engine_resume e of Inl _ \<Rightarrow> e | Inr e' \<Rightarrow> e')"
| "engine_apply (Tick dt) e = engine_tick dt e"

fun engine_run :: "engine_op list \<Rightarrow> engine \<Rightarrow> engine" where
  \<comment> \<open>Modelled from the spec: a history of the engine, its calls and ticks in order.\<close>
  "engine_run [] e = e"
| "engine_run (x # xs) e = engine_run xs (engine_apply x e)"

subsection \<open>Dispatcher\<close>

text \<open>
  Modelled from the spec: the result value of the dispatcher (section 4.3), success or
  failure with a message.
\<close>

record dispatch_result =
  result_ok :: bool
  result_message :: string

definition panel_move ::
  "nat \<Rightarrow> (hal_call \<Rightarrow> bool) \<Rightarrow> int \<Rightarrow> target \<Rightarrow> engine \<Rightarrow> dispatch_result \<times> engine" where
  \<comment> \<open>Modelled from the spec: a panel open or close as direct HAL calls (section 4.3).
      \<open>n\<close> is the number of panel actuators, \<open>hal\<close> tells whether a call succeeds; the
      target \<open>AllTargets\<close> addresses the actuators 1..n. A failed call gives a failure result.\<close>
  "panel_move n hal pos tgt e =
     (let calls = map (\<lambda>ch. SetPosition ch pos) (case tgt of AllTargets \<Rightarrow> [1..<Suc n] | Actuator k \<Rightarrow> [k])
      in (\<lparr>result_ok = list_all hal calls,
           result_message = (if list_all hal calls then ''ok'' else ''HalCallFailed'')\<rparr>,
          e\<lparr>hal_log := hal_log e @ map (Pair Direct) calls\<rparr>))"

definition seq_ref_of :: "command \<Rightarrow> seq_ref" where
  \<comment> \<open>Modelled from the spec: the sequence that an \<^verbatim>\<open>SE\<close> command names, by name when
      the decoder kept one, else by the number of its target (00 is id 0).\<close>
  "seq_ref_of c =
     (case arguments c of
        [ArgStr nm] \<Rightarrow> SeqName nm
      | _ \<Rightarrow> SeqId (case target c of AllTargets \<Rightarrow> 0 | Actuator k \<Rightarrow> k))"

definition spec_dispatch ::
  "nat \<Rightarrow> (hal_call \<Rightarrow> bool) \<Rightarrow> command \<Rightarrow> engine \<Rightarrow> (dispatch_result \<times> engine) option" where
  \<comment> \<open>Modelled from the spec: the dispatcher (section 4.3) for the Panel opcodes
      \<^verbatim>\<open>OP\<close>, \<^verbatim>\<open>CL\<close> and \<^verbatim>\<open>SE\<close>. For the other commands the spec names no HAL call; the
      result \<open>None\<close> stands for "not covered by this model".\<close>
  "spec_dispatch n hal c e =
     (if family c = Panel \<and> opcode c = ''OP'' then Some (panel_move n hal OPN (target c) e)
      else if family c = Panel \<and> opcode c = ''CL'' then Some (panel_move n hal CLS (target c) e)
      else if family c = Panel \<and> opcode c = ''SE'' then
        Some (case engine_start (seq_ref_of c) e of
                Inl _ \<Rightarrow> (\<lparr>result_ok = False, result_message = ''UnknownSequence''\<rparr>, e)
              | Inr e' \<Rightarrow> (\<lparr>result_ok = True, result_message = ''ok''\<rparr>, e'))
      else None)"

fun spec_process ::
  "nat \<Rightarrow> (hal_call \<Rightarrow> bool) \<Rightarrow> string list \<Rightarrow> engine \<Rightarrow> (dispatch_result list \<times> engine) option" where
  \<comment> \<open>Modelled from the spec: frames are decoded and dispatched in order; a frame
      that does not decode is dropped with a failure result and processing goes on.\<close>
  "spec_process n hal [] e = Some ([], e)"
| "spec_process n hal (f # fs) e =
     (case spec_decode f of
        None \<Rightarrow> None
      | Some (Inl err) \<Rightarrow>
          map_option (\<lambda>(rs, e'). (\<lparr>result_ok = False, result_message = ''decode error''\<rparr> # rs, e'))
            (spec_process n hal fs e)
      | Some (Inr c) \<Rightarrow>
          (case spec_dispatch n hal c e of
             None \<Rightarrow> None
           | Some (r, e1) \<Rightarrow> map_option (\<lambda>(rs, e2). (r # rs, e2)) (spec_process n hal fs e1)))"

subsection \<open>Configuration store\<close>

text \<open>
  Modelled from the spec: the Configuration of section 3, its persisted form with the
  stored checksum, and the store with its dirty mark and the warnings it has logged.
\<close>

record configuration =
  servo_directions :: nat
  startup_sound_mode :: nat
  quiet_mode :: bool
  slave_delay_ms :: nat
  active_sound_module :: nat

record persisted =
  stored :: configuration
  checksum :: nat

datatype config_event = ConfigChecksumMismatch

record store =
  config :: configuration
  dirty :: bool
  warnings :: "config_event list"

definition calc_crc :: "configuration \<Rightarrow> nat" where
  \<comment> \<open>the \<^verbatim>\<open>calc_crc\<close> of the protocol reference, a 16-bit sum of the servo directions,
      the startup sound, the random-sound-disabled flag and the player selection\<close>
  "calc_crc c =
     (servo_directions c + startup_sound_mode c + (if quiet_mode c then 1 else 0) +
        active_sound_module c) mod 65536"

definition config_load :: "(configuration \<Rightarrow> nat) \<Rightarrow> configuration \<Rightarrow> persisted \<Rightarrow> store" where
  \<comment> \<open>Modelled from the spec: \<^verbatim>\<open>load()\<close> of the configuration store (section 4.5), which
      the sources lack. \<open>crc\<close> is the checksum function and \<open>defaults\<close> the compiled-in
      configuration. On a mismatch a warning is logged, the defaults are taken and the
      store is marked dirty; there is no failure value.\<close>
  "config_load crc defaults p =
     (if crc (stored p) = checksum p
      then \<lparr>config = stored p, dirty = False, warnings = []\<rparr>
      else \<lparr>config = defaults, dirty = True, warnings = [ConfigChecksumMismatch]\<rparr>)"

definition config_save :: "(configuration \<Rightarrow> nat) \<Rightarrow> store \<Rightarrow> persisted \<times> store" where
  \<comment> \<open>Modelled from the spec: \<^verbatim>\<open>save\<close> writes the in-memory configuration with its
      recomputed checksum and clears the dirty mark.\<close>
  "config_save crc st = (\<lparr>stored = config st, checksum = crc (config st)\<rparr>, st\<lparr>dirty := False\<rparr>)"

definition config_get :: "(configuration \<Rightarrow> 'a) \<Rightarrow> store \<Rightarrow> 'a" where
  \<comment> \<open>Modelled from the spec: \<^verbatim>\<open>get(field)\<close> reads the in-memory configuration.\<close>
  "config_get field st = field (config st)"

subsection \<open>Invariants of the engine\<close>

definition engine_inv :: "engine \<Rightarrow> bool" where
  \<comment> \<open>run ids in the logs are older than the next id, and an active run has no
      notification yet\<close>
  "engine_inv e =
     ((\<forall>n \<in> set (notifications e). note_run n < next_run_id e)
      \<and> (case active e of
           None \<Rightarrow> True
         | Some r \<Rightarrow> run_id r < next_run_id e
                     \<and> (is_active r \<longrightarrow> (\<forall>n \<in> set (notifications e). note_run n \<noteq> run_id r))))"

definition newer_run :: "nat \<Rightarrow> engine \<Rightarrow> bool" where
  \<comment> \<open>the engine holds a run that was started after the run \<open>rid\<close>\<close>
  "newer_run rid e =
     (case active e of None \<Rightarrow> False | Some r \<Rightarrow> rid < run_id r \<and> run_id r < next_run_id e)"

section \<open>Properties\<close>

subsection \<open>Formatting a panel number and reading it back\<close>

lemma js_of_simps:
  "js_of [] = []"
  "js_of (c # s) = of_char c # js_of s"
  "js_of (a @ b) = js_of a @ js_of b"
  by (simp_all add: js_of_def)

lemma of_char_digit_char: "d < 10 \<Longrightarrow> (of_char (digit_char d) :: nat) = 48 + d"
  by (simp add: digit_char_def)

lemma digitValue_digit_char: "d < 10 \<Longrightarrow> digitValue (of_char (digit_char d)) = Some d"
  by (simp add: of_char_digit_char digitValue_def)

lemma isRadixDigit_digit_char: "d < 10 \<Longrightarrow> isRadixDigit 10 (of_char (digit_char d))"
  by (simp add: isRadixDigit_def digitValue_digit_char)

lemma str_nat_digits: "k \<in> set (js_of (str_nat n)) \<Longrightarrow> isRadixDigit 10 k"
proof (induction n arbitrary: k rule: str_nat.induct)
  case (1 n)
  show ?case
  proof (cases "n < 10")
    case True
    with "1.prems" show ?thesis
      by (subst (asm) str_nat.simps) (auto simp: js_of_simps isRadixDigit_digit_char)
  next
    case False
    with "1.prems" have "k \<in> set (js_of (str_nat (n div 10))) \<or> k = of_char (digit_char (n mod 10))"
      by (subst (asm) str_nat.simps) (auto simp: js_of_simps)
    then show ?thesis
      using False "1.IH" by (auto simp: isRadixDigit_digit_char)
  qed
qed

lemma str_nat_nonempty: "str_nat n \<noteq> []"
  by (subst str_nat.simps) simp

lemma radixValue_snoc:
  "radixValue R (xs @ [k]) = radixValue R xs * R + (case digitValue k of None \<Rightarrow> 0 | Some v \<Rightarrow> v)"
  by (simp add: radixValue_def)

lemma radixValue_str_nat: "radixValue 10 (js_of (str_nat n)) = n"
proof (induction n rule: str_nat.induct)
  case (1 n)
  show ?case
  proof (cases "n < 10")
    case True
    then show ?thesis
      by (subst str_nat.simps) (simp add: radixValue_def js_of_simps digitValue_digit_char)
  next
    case False
    then have "radixValue 10 (js_of (str_nat n)) =
        radixValue 10 (js_of (str_nat (n div 10))) * 10 + n mod 10"
      by (subst str_nat.simps) (simp add: js_of_simps radixValue_snoc digitValue_digit_char)
    with False 1 show ?thesis by simp
  qed
qed

lemma digitValue_zero: "digitValue 48 = Some 0"
  by (simp add: digitValue_def)

lemma radixValue_zeros: "radixValue R (replicate k 48 @ s) = radixValue R s"
  by (induction k) (simp_all add: radixValue_def digitValue_zero)

lemma js_of_zfill: "js_of (zfill w s) = replicate (w - length s) 48 @ js_of s"
  by (simp add: zfill_def js_of_def)

lemma zfill_digits: "k \<in> set (js_of (zfill w (str_nat n))) \<Longrightarrow> isRadixDigit 10 k"
  by (auto simp: js_of_zfill isRadixDigit_def digitValue_zero dest: str_nat_digits)

lemma isRadixDigit_facts:
  assumes "isRadixDigit 10 k"
  shows "\<not> isWhiteSpace k" "k \<noteq> 45" "k \<noteq> 43" "k \<noteq> 120" "k \<noteq> 88"
  using assms
  by (auto simp: isRadixDigit_def digitValue_def isWhiteSpace_def split: if_splits)

lemma parseInt_digits:
  assumes "Z \<noteq> []" and "\<forall>k \<in> set Z. isRadixDigit 10 k"
  shows "parseInt Z = Some (int (radixValue 10 Z))"
proof -
  obtain a r where Z: "Z = a # r" using assms(1) by (cases Z) auto
  have a: "isRadixDigit 10 a" using assms(2) Z by simp
  have dw: "dropWhile isWhiteSpace Z = Z"
    using a isRadixDigit_facts(1) Z by simp
  have nothex: "take 2 Z \<noteq> js_of ''0x''" "take 2 Z \<noteq> js_of ''0X''"
    using assms(2) Z isRadixDigit_facts(4,5) by (cases r; auto simp: js_of_def)+
  have tw: "takeWhile (isRadixDigit 10) Z = Z"
    using assms(2) by (simp add: takeWhile_eq_all_conv)
  have hd: "take (Suc 0) Z \<noteq> js_of ''-''" "take (Suc 0) Z \<noteq> js_of ''+''"
    using isRadixDigit_facts(2,3)[OF a] Z by (simp_all add: js_of_def)
  show ?thesis
    using assms(1) by (simp add: parseInt_def Let_def dw hd nothex tw)
qed

lemma parseInt_fmt_02d: "0 \<le> t \<Longrightarrow> parseInt (js_of (fmt_02d t)) = Some t"
proof -
  assume t: "0 \<le> t"
  have ne: "js_of (zfill 2 (str_nat (nat t))) \<noteq> []"
    by (simp add: zfill_def js_of_def str_nat_nonempty)
  have "parseInt (js_of (zfill 2 (str_nat (nat t)))) =
      Some (int (radixValue 10 (js_of (zfill 2 (str_nat (nat t))))))"
    using ne zfill_digits by (intro parseInt_digits) auto
  also have "radixValue 10 (js_of (zfill 2 (str_nat (nat t)))) = nat t"
    by (simp add: js_of_zfill radixValue_zeros radixValue_str_nat)
  finally show ?thesis using t by (simp add: fmt_02d_def)
qed

subsection \<open>The command log\<close>

lemma trimLog_drop: "trimLog xs = drop (length xs - 100) xs"
proof (induction xs rule: trimLog.induct)
  case (1 children)
  show ?case
  proof (cases "length children > 100")
    case True
    then have ne: "children \<noteq> []" by auto
    have idx: "Suc (length children - 101) = length children - 100"
      using True by arith
    have "trimLog children = trimLog (tl children)"
      using True by (subst trimLog.simps) simp
    also have "\<dots> = drop (length (tl children) - 100) (tl children)"
      using 1 True by simp
    also have "\<dots> = drop (Suc (length children - 101)) children"
      using ne by (simp add: drop_Suc)
    finally show ?thesis
      by (simp only: idx)
  next
    case False
    then show ?thesis by (subst trimLog.simps) simp
  qed
qed

text \<open>
  C9. After every call of \<open>addLogEntry\<close> the log holds at most 100 entries, and the entry
  just appended is the last one; the entries that go are the oldest, so the result is the
  extended log without its first \<open>length children - 99\<close> entries (exactly the first one
  when 100 were present).
\<close>

theorem addLogEntry_bound:
  "length (addLogEntry now children message type) \<le> 100
   \<and> last (addLogEntry now children message type) =
       \<lparr>entry_class = ''log-entry '' @ type,
        textContent = js_of ''['' @ now @ js_of ''] '' @ message\<rparr>
   \<and> addLogEntry now children message type =
       drop (length children - 99)
         (children @ [\<lparr>entry_class = ''log-entry '' @ type,
                       textContent = js_of ''['' @ now @ js_of ''] '' @ message\<rparr>])"
  by (simp add: addLogEntry_def trimLog_drop)

subsection \<open>Panel commands in the simulator and in the API\<close>

lemma update_OP:
  "updatePanelsFromCommand panels (58 # 79 # 80 # rest) =
     (case parseInt rest of
        None \<Rightarrow> Inr panels
      | Some panelNum \<Rightarrow>
          if panelNum = 0 then Inr (map (\<lambda>p. setPanelState p ''open'') panels)
          else if panelNum \<ge> 1 \<and> panelNum \<le> 16 then setPanelAt panels (panelNum - 1) ''open''
          else Inr panels)"
  by (simp add: updatePanelsFromCommand_def startsWith_def substring_def js_of_def)

lemma update_CL:
  "updatePanelsFromCommand panels (58 # 67 # 76 # rest) =
     (case parseInt rest of
        None \<Rightarrow> Inr panels
      | Some panelNum \<Rightarrow>
          if panelNum = 0 then Inr (map (\<lambda>p. setPanelState p ''closed'') panels)
          else if panelNum \<ge> 1 \<and> panelNum \<le> 16 then setPanelAt panels (panelNum - 1) ''closed''
          else Inr panels)"
  by (simp add: updatePanelsFromCommand_def startsWith_def substring_def js_of_def)

lemma fmt_02d_0: "fmt_02d 0 = ''00''"
  by code_simp

lemma fmt_02d_1: "fmt_02d 1 = ''01''"
  by code_simp

lemma out_of_range_frame_ignored:
  "parseInt rest = Some n \<Longrightarrow> n < 0 \<or> 16 < n \<Longrightarrow>
     updatePanelsFromCommand panels (58 # 79 # 80 # rest) = Inr panels"
  by (auto simp: update_OP)

text \<open>
  C1. For every panel number \<open>t\<close> from 1 to 16, the frame \<^verbatim>\<open>:OP\<close> followed by \<open>t\<close> in two
  digits is read by the simulator as "open panel \<open>t\<close>": of its sixteen panels exactly the
  one at index \<open>t - 1\<close> is set to open. The frame \<^verbatim>\<open>:OP00\<close> is read as "all": every
  panel is set to open, and no panel of index 0 - 1 is looked up.
\<close>

theorem decode_open_panel:
  assumes "length panels = 16"
  shows "(1 \<le> t \<and> t \<le> 16 \<longrightarrow>
            updatePanelsFromCommand panels (js_of ('':OP'' @ fmt_02d t)) =
              Inr (panels[nat (t - 1) := setPanelState (panels ! nat (t - 1)) ''open'']))
         \<and> updatePanelsFromCommand panels (js_of ('':OP'' @ fmt_02d 0)) =
              Inr (map (\<lambda>p. setPanelState p ''open'') panels)"
  using assms
  by (auto simp: js_of_simps(2) update_OP parseInt_fmt_02d setPanelAt_def)

theorem decode_open_panel_witness:
  "length initializeDome = 16 \<and> (1::int) \<le> 5 \<and> (5::int) \<le> 16
   \<and> updatePanelsFromCommand initializeDome (js_of '':OP05'') =
       Inr (initializeDome[4 := \<lparr>panel_id = 5, className = ''panel open'', background = ''#4CAF50''\<rparr>])
   \<and> updatePanelsFromCommand initializeDome (js_of '':OP00'') =
       Inr (map (\<lambda>p. setPanelState p ''open'') initializeDome)"
proof -
  have len: "length initializeDome = 16" by (simp add: initializeDome_def)
  have f5: "fmt_02d 5 = ''05''" by code_simp
  have p5: "initializeDome ! 4 = \<lparr>panel_id = 5, className = ''panel closed'', background = ''''\<rparr>"
    by (simp add: initializeDome_def)
  show ?thesis
    using decode_open_panel [OF len, of 5] len
    by (simp add: f5 fmt_02d_0 p5 setPanelState_def js_of_def)
qed

text \<open>
  C2. For every panel number \<open>t\<close> below 0 or above 16, \<open>open_panel\<close> returns the value
  \<^verbatim>\<open>{'success': False, 'error': 'Panel number must be 1-16'}\<close> and leaves the trace as it
  was: nothing is raised, nothing is printed and no command is sent, in either mode.
\<close>

theorem open_panel_out_of_range:
  "t < 0 \<or> 16 < t \<Longrightarrow>
     open_panel env self t w =
       (PyDict [(''success'', PyBool False), (''error'', PyStr ''Panel number must be 1-16'')], w)"
  by (auto simp: open_panel_def)

theorem open_panel_out_of_range_witness:
  "((99::int) < 0 \<or> 16 < (99::int))
   \<and> open_panel \<lparr>HAS_REQUESTS = False, http = (\<lambda>w ev. Inl ''unreachable'')\<rparr>
        \<lparr>base_url = ''http://localhost:5000'', session = False\<rparr> 99 [] =
       (PyDict [(''success'', PyBool False), (''error'', PyStr ''Panel number must be 1-16'')], [])"
  using open_panel_out_of_range [of 99 "\<lparr>HAS_REQUESTS = False, http = (\<lambda>w ev. Inl ''unreachable'')\<rparr>"
      "\<lparr>base_url = ''http://localhost:5000'', session = False\<rparr>" "[]"]
  by simp

lemma currentSequence_addLog [simp]: "currentSequence (addLog now m ty sim) = currentSequence sim"
  by (simp add: addLog_def)

lemma sim_panels_addLog [simp]: "sim_panels (addLog now m ty sim) = sim_panels sim"
  by (simp add: addLog_def)

lemma trim_frame: "trim (js_of '':CL00'') = js_of '':CL00''"
  by (simp add: trim_def js_of_def isWhiteSpace_def)

lemma parseInt_00: "parseInt [48, 48] = Some 0"
  using parseInt_fmt_02d [of 0] by (simp add: fmt_02d_0 js_of_def)

lemma update_CL00:
  "updatePanelsFromCommand ps (js_of '':CL00'') = Inr (map (\<lambda>p. setPanelState p ''closed'') ps)"
  by (simp add: js_of_def update_CL parseInt_00)

lemma setPanelState_closed:
  "className (setPanelState p ''closed'') = ''panel closed''"
  "setPanelState (setPanelState p ''closed'') ''closed'' = setPanelState p ''closed''"
  by (simp_all add: setPanelState_def)

lemma sendCommand_CL00:
  "sim_panels (sendCommand now (js_of '':CL00'') (Inr r) sim) =
     (if r_success r then map (\<lambda>p. setPanelState p ''closed'') (sim_panels sim) else sim_panels sim)"
  "sim_panels (sendCommand now (js_of '':CL00'') (Inl err) sim) = sim_panels sim"
proof -
  have ne: "js_of '':CL00'' \<noteq> []" by (simp add: js_of_def)
  show "sim_panels (sendCommand now (js_of '':CL00'') (Inr r) sim) =
     (if r_success r then map (\<lambda>p. setPanelState p ''closed'') (sim_panels sim) else sim_panels sim)"
    using ne by (simp add: sendCommand_def trim_frame Let_def update_CL00)
  show "sim_panels (sendCommand now (js_of '':CL00'') (Inl err) sim) = sim_panels sim"
    using ne by (simp add: sendCommand_def trim_frame Let_def)
qed

lemma tokens_panel_closed: "tokens [] ''panel closed'' = [''panel'', ''closed'']"
  by (simp add: isAsciiSpace_def)

lemma replicate_sixteen:
  "replicate 16 x = [x, x, x, x, x, x, x, x, x, x, x, x, x, x, x, x]"
  by (simp add: eval_nat_numeral)

text \<open>
  C3, as stated, fails: a dispatch of \<^verbatim>\<open>:CL00\<close> need not return success, and the panels
  are closed only after a success answer. With the requests module present and the
  request raising, \<open>close_all_panels\<close> returns a failure result; on the simulator, when
  the request fails, a panel that was opened by a click stays open.
\<close>

theorem close_all_counterexample:
  "fst (close_all_panels \<lparr>HAS_REQUESTS = True, http = (\<lambda>w ev. Inl ''Connection refused'')\<rparr>
          \<lparr>base_url = ''http://localhost:5000'', session = True\<rparr> []) =
     PyDict [(''success'', PyBool False), (''error'', PyStr ''Connection refused'')]
   \<and> className
        (sim_panels (sendCommand (js_of ''12:00:00'') (js_of '':CL00'') (Inl (js_of ''Failed to fetch''))
           (sim_run [(js_of ''11:59:59'', PanelClick 1)] (new_simulator []))) ! 0) =
     ''panel open''"
proof -
  have a: "fst (close_all_panels \<lparr>HAS_REQUESTS = True, http = (\<lambda>w ev. Inl ''Connection refused'')\<rparr>
          \<lparr>base_url = ''http://localhost:5000'', session = True\<rparr> []) =
     PyDict [(''success'', PyBool False), (''error'', PyStr ''Connection refused'')]"
    by (simp add: close_all_panels_def send_command_def request_def)
  have c: "className (sim_panels (sim_run [(js_of ''11:59:59'', PanelClick 1)] (new_simulator [])) ! 0) =
     ''panel open''"
    by (simp add: panel_click_def togglePanel_def new_simulator_def initializeDome_def upt_rec
        classList_def tokens_panel_closed setPanelAt_def setPanelState_def)
  show ?thesis
    using a c by (simp only: sendCommand_CL00)
qed

text \<open>
  C3, amended. A call of \<open>close_all_panels\<close> sends exactly the frame \<^verbatim>\<open>:CL00\<close>. In
  simulation mode the frame is printed and the result is success, on the first call and
  on the second; with a session the frame is posted and the result is the server's
  answer, or a failure result when the request raises. On the simulator, a dispatch of
  \<^verbatim>\<open>:CL00\<close> that the server answers with success puts every panel in the closed state,
  and a second such dispatch leaves the panels as they are; a dispatch that is answered
  with failure, or whose request fails, leaves the panels as they were.
\<close>

theorem close_all_twice:
  "(\<not> (HAS_REQUESTS env \<and> session self) \<longrightarrow>
      close_all_panels env self w =
        (PyDict [(''success'', PyBool True), (''message'', PyStr ''Simulated: :CL00'')],
         w @ [Print ''Simulated command: :CL00''])
      \<and> close_all_panels env self (w @ [Print ''Simulated command: :CL00'']) =
        (PyDict [(''success'', PyBool True), (''message'', PyStr ''Simulated: :CL00'')],
         w @ [Print ''Simulated command: :CL00'', Print ''Simulated command: :CL00'']))
   \<and> (HAS_REQUESTS env \<and> session self \<longrightarrow>
      close_all_panels env self w =
        ((case http env w (Post (base_url self @ ''/api/command'')
                             (Some (PyDict [(''command'', PyStr '':CL00'')]))) of
            Inl e \<Rightarrow> PyDict [(''success'', PyBool False), (''error'', PyStr e)]
          | Inr r \<Rightarrow> r),
         w @ [Post (base_url self @ ''/api/command'') (Some (PyDict [(''command'', PyStr '':CL00'')]))]))
   \<and> sim_panels (sendCommand now (js_of '':CL00'') (Inr r) sim) =
       (if r_success r then map (\<lambda>p. setPanelState p ''closed'') (sim_panels sim) else sim_panels sim)
   \<and> sim_panels (sendCommand now (js_of '':CL00'') (Inl err) sim) = sim_panels sim
   \<and> (\<forall>p \<in> set (map (\<lambda>p. setPanelState p ''closed'') (sim_panels sim)). className p = ''panel closed'')
   \<and> (r_success r \<longrightarrow>
        sim_panels (sendCommand now' (js_of '':CL00'') a'
                      (sendCommand now (js_of '':CL00'') (Inr r) sim)) =
        sim_panels (sendCommand now (js_of '':CL00'') (Inr r) sim))
   \<and> sim_panels (sendCommand now' (js_of '':CL00'') a (sendCommand now (js_of '':CL00'') a sim)) =
       sim_panels (sendCommand now (js_of '':CL00'') a sim)"
proof -
  have a: "\<not> (HAS_REQUESTS env \<and> session self) \<Longrightarrow>
      close_all_panels env self v =
        (PyDict [(''success'', PyBool True), (''message'', PyStr ''Simulated: :CL00'')],
         v @ [Print ''Simulated command: :CL00''])" for v
    by (auto simp: close_all_panels_def send_command_def)
  have b: "HAS_REQUESTS env \<and> session self \<Longrightarrow>
      close_all_panels env self w =
        ((case http env w (Post (base_url self @ ''/api/command'')
                             (Some (PyDict [(''command'', PyStr '':CL00'')]))) of
            Inl e \<Rightarrow> PyDict [(''success'', PyBool False), (''error'', PyStr e)]
          | Inr r \<Rightarrow> r),
         w @ [Post (base_url self @ ''/api/command'') (Some (PyDict [(''command'', PyStr '':CL00'')]))])"
    by (simp add: close_all_panels_def send_command_def request_def)
  have c: "\<forall>p \<in> set (map (\<lambda>p. setPanelState p ''closed'') (sim_panels sim)). className p = ''panel closed''"
    by (simp add: setPanelState_closed)
  have d: "r_success r \<Longrightarrow>
        sim_panels (sendCommand now' (js_of '':CL00'') a'
                      (sendCommand now (js_of '':CL00'') (Inr r) sim)) =
        sim_panels (sendCommand now (js_of '':CL00'') (Inr r) sim)"
    by (cases a') (simp_all add: sendCommand_CL00 setPanelState_closed)
  have e: "sim_panels (sendCommand now' (js_of '':CL00'') a (sendCommand now (js_of '':CL00'') a sim)) =
       sim_panels (sendCommand now (js_of '':CL00'') a sim)"
    by (cases a) (simp_all add: sendCommand_CL00 setPanelState_closed)
  show ?thesis
    using a [of w] a [of "w @ [Print ''Simulated command: :CL00'']"] b c d e sendCommand_CL00
    by simp
qed

theorem close_all_twice_witness:
  "\<not> (HAS_REQUESTS \<lparr>HAS_REQUESTS = False, http = (\<lambda>w ev. Inl [])\<rparr>
        \<and> session \<lparr>base_url = ''http://localhost:5000'', session = False\<rparr>)
   \<and> close_all_panels \<lparr>HAS_REQUESTS = False, http = (\<lambda>w ev. Inl [])\<rparr>
        \<lparr>base_url = ''http://localhost:5000'', session = False\<rparr> [] =
       (PyDict [(''success'', PyBool True), (''message'', PyStr ''Simulated: :CL00'')],
        [Print ''Simulated command: :CL00''])
   \<and> (HAS_REQUESTS \<lparr>HAS_REQUESTS = True, http = (\<lambda>w ev. Inr (PyDict [(''success'', PyBool True)]))\<rparr>
        \<and> session \<lparr>base_url = ''http://localhost:5000'', session = True\<rparr>)
   \<and> close_all_panels \<lparr>HAS_REQUESTS = True, http = (\<lambda>w ev. Inr (PyDict [(''success'', PyBool True)]))\<rparr>
        \<lparr>base_url = ''http://localhost:5000'', session = True\<rparr> [] =
       (PyDict [(''success'', PyBool True)],
        [Post ''http://localhost:5000/api/command'' (Some (PyDict [(''command'', PyStr '':CL00'')]))])
   \<and> r_success \<lparr>r_success = True, r_message = js_of ''ok'', r_error = [], r_steps = []\<rparr>
   \<and> map className
         (sim_panels (sendCommand (js_of ''12:00:01'') (js_of '':CL00'')
            (Inr \<lparr>r_success = True, r_message = js_of ''ok'', r_error = [], r_steps = []\<rparr>)
            (new_simulator []))) = replicate 16 ''panel closed''
   \<and> sim_panels (sendCommand (js_of ''12:00:02'') (js_of '':CL00'')
            (Inr \<lparr>r_success = True, r_message = js_of ''ok'', r_error = [], r_steps = []\<rparr>)
            (sendCommand (js_of ''12:00:01'') (js_of '':CL00'')
               (Inr \<lparr>r_success = True, r_message = js_of ''ok'', r_error = [], r_steps = []\<rparr>)
               (new_simulator []))) =
       sim_panels (sendCommand (js_of ''12:00:01'') (js_of '':CL00'')
            (Inr \<lparr>r_success = True, r_message = js_of ''ok'', r_error = [], r_steps = []\<rparr>)
            (new_simulator []))"
proof -
  let ?env = "\<lparr>HAS_REQUESTS = False, http = (\<lambda>w ev. Inl [])\<rparr>"
  let ?self = "\<lparr>base_url = ''http://localhost:5000'', session = False\<rparr>"
  let ?env2 = "\<lparr>HAS_REQUESTS = True, http = (\<lambda>w ev. Inr (PyDict [(''success'', PyBool True)]))\<rparr>"
  let ?self2 = "\<lparr>base_url = ''http://localhost:5000'', session = True\<rparr>"
  let ?ok = "\<lparr>r_success = True, r_message = js_of ''ok'', r_error = [], r_steps = []\<rparr>"
  note t = close_all_twice [where env = ?env and self = ?self and w = "[]"
      and now = "js_of ''12:00:01''" and now' = "js_of ''12:00:02''" and r = ?ok
      and a' = "Inr ?ok" and sim = "new_simulator []"]
  note t2 = close_all_twice [where env = ?env2 and self = ?self2 and w = "[]"]
  have sim: "\<not> (HAS_REQUESTS ?env \<and> session ?self)" by simp
  have req: "HAS_REQUESTS ?env2 \<and> session ?self2" by simp
  have a: "close_all_panels ?env ?self [] =
       (PyDict [(''success'', PyBool True), (''message'', PyStr ''Simulated: :CL00'')],
        [Print ''Simulated command: :CL00''])"
    using t sim by simp
  have a2: "close_all_panels ?env2 ?self2 [] =
       (PyDict [(''success'', PyBool True)],
        [Post ''http://localhost:5000/api/command'' (Some (PyDict [(''command'', PyStr '':CL00'')]))])"
    using t2 req by simp
  have ok: "r_success ?ok" by simp
  have b: "sim_panels (sendCommand (js_of ''12:00:01'') (js_of '':CL00'') (Inr ?ok) (new_simulator [])) =
      map (\<lambda>p. setPanelState p ''closed'') (sim_panels (new_simulator []))"
    using t ok by simp
  have c: "map className (map (\<lambda>p. setPanelState p ''closed'') (sim_panels (new_simulator []))) =
      replicate 16 ''panel closed''"
    by (simp add: new_simulator_def initializeDome_def setPanelState_def upt_rec
        replicate_sixteen)
  have d: "sim_panels (sendCommand (js_of ''12:00:02'') (js_of '':CL00'') (Inr ?ok)
            (sendCommand (js_of ''12:00:01'') (js_of '':CL00'') (Inr ?ok) (new_simulator []))) =
       sim_panels (sendCommand (js_of ''12:00:01'') (js_of '':CL00'') (Inr ?ok) (new_simulator []))"
    using t ok by blast
  have bc: "map className
         (sim_panels (sendCommand (js_of ''12:00:01'') (js_of '':CL00'') (Inr ?ok) (new_simulator []))) =
       replicate 16 ''panel closed''"
    using b c by simp
  from sim a req a2 ok bc d show ?thesis
    by blast
qed

lemma startsWith_OP_split:
  "startsWith f (js_of '':OP'') \<Longrightarrow> f = 58 # 79 # 80 # substring f 3"
proof -
  assume "startsWith f (js_of '':OP'')"
  then have "take 3 f = [58, 79, 80]" by (simp add: startsWith_def js_of_def eval_nat_numeral)
  then have "f = [58, 79, 80] @ drop 3 f" by (metis append_take_drop_id)
  then show ?thesis by (simp add: substring_def)
qed

lemma startsWith_CL_split:
  "startsWith f (js_of '':CL'') \<Longrightarrow> f = 58 # 67 # 76 # substring f 3"
proof -
  assume "startsWith f (js_of '':CL'')"
  then have "take 3 f = [58, 67, 76]" by (simp add: startsWith_def js_of_def eval_nat_numeral)
  then have "f = [58, 67, 76] @ drop 3 f" by (metis append_take_drop_id)
  then show ?thesis by (simp add: substring_def)
qed

lemma canonical_OP:
  "0 \<le> t \<Longrightarrow> startsWith (js_of ('':OP'' @ fmt_02d t)) (js_of '':OP'')
     \<and> parseInt (substring (js_of ('':OP'' @ fmt_02d t)) 3) = Some t"
  by (simp add: startsWith_def substring_def js_of_def parseInt_fmt_02d [unfolded js_of_def])

lemma canonical_CL:
  "0 \<le> t \<Longrightarrow> startsWith (js_of ('':CL'' @ fmt_02d t)) (js_of '':CL'')
     \<and> parseInt (substring (js_of ('':CL'' @ fmt_02d t)) 3) = Some t"
  by (simp add: startsWith_def substring_def js_of_def parseInt_fmt_02d [unfolded js_of_def])

lemma reencode_OP:
  assumes "startsWith f (js_of '':OP'')" "parseInt (substring f 3) = Some n" "0 \<le> n"
  shows "updatePanelsFromCommand ps (js_of ('':OP'' @ fmt_02d n)) = updatePanelsFromCommand ps f"
proof -
  have "updatePanelsFromCommand ps f = updatePanelsFromCommand ps (58 # 79 # 80 # substring f 3)"
    using startsWith_OP_split [OF assms(1)] by (rule arg_cong)
  then show ?thesis
    using assms(2,3) by (simp add: js_of_simps(2) update_OP parseInt_fmt_02d)
qed

lemma reencode_CL:
  assumes "startsWith f (js_of '':CL'')" "parseInt (substring f 3) = Some n" "0 \<le> n"
  shows "updatePanelsFromCommand ps (js_of ('':CL'' @ fmt_02d n)) = updatePanelsFromCommand ps f"
proof -
  have "updatePanelsFromCommand ps f = updatePanelsFromCommand ps (58 # 67 # 76 # substring f 3)"
    using startsWith_CL_split [OF assms(1)] by (rule arg_cong)
  then show ?thesis
    using assms(2,3) by (simp add: js_of_simps(2) update_CL parseInt_fmt_02d)
qed

lemma exact_OP:
  assumes "parseInt (substring f 3) = Some n" "0 \<le> n" "n \<le> 16"
  shows "(js_of ('':OP'' @ fmt_02d n) = f) = (\<exists>t. 0 \<le> t \<and> t \<le> 16 \<and> f = js_of ('':OP'' @ fmt_02d t))"
proof
  assume "js_of ('':OP'' @ fmt_02d n) = f"
  then show "\<exists>t. 0 \<le> t \<and> t \<le> 16 \<and> f = js_of ('':OP'' @ fmt_02d t)"
    using assms(2,3) by auto
next
  assume "\<exists>t. 0 \<le> t \<and> t \<le> 16 \<and> f = js_of ('':OP'' @ fmt_02d t)"
  then obtain t where t: "0 \<le> t" "f = js_of ('':OP'' @ fmt_02d t)" by auto
  then have "parseInt (substring f 3) = Some t"
    using canonical_OP [of t] by simp
  then have "t = n" using assms(1) by simp
  then show "js_of ('':OP'' @ fmt_02d n) = f" using t by simp
qed

lemma exact_CL:
  assumes "parseInt (substring f 3) = Some n" "0 \<le> n" "n \<le> 16"
  shows "(js_of ('':CL'' @ fmt_02d n) = f) = (\<exists>t. 0 \<le> t \<and> t \<le> 16 \<and> f = js_of ('':CL'' @ fmt_02d t))"
proof
  assume "js_of ('':CL'' @ fmt_02d n) = f"
  then show "\<exists>t. 0 \<le> t \<and> t \<le> 16 \<and> f = js_of ('':CL'' @ fmt_02d t)"
    using assms(2,3) by auto
next
  assume "\<exists>t. 0 \<le> t \<and> t \<le> 16 \<and> f = js_of ('':CL'' @ fmt_02d t)"
  then obtain t where t: "0 \<le> t" "f = js_of ('':CL'' @ fmt_02d t)" by auto
  then have "parseInt (substring f 3) = Some t"
    using canonical_CL [of t] by simp
  then have "t = n" using assms(1) by simp
  then show "js_of ('':CL'' @ fmt_02d n) = f" using t by simp
qed

lemma encoders:
  "1 \<le> t \<and> t \<le> 16 \<Longrightarrow> open_panel env self t w = send_command env self ('':OP'' @ fmt_02d t) w"
  "1 \<le> t \<and> t \<le> 16 \<Longrightarrow> close_panel env self t w = send_command env self ('':CL'' @ fmt_02d t) w"
  "open_all_panels env self w = send_command env self ('':OP'' @ fmt_02d 0) w"
  "close_all_panels env self w = send_command env self ('':CL'' @ fmt_02d 0) w"
  by (simp_all add: open_panel_def close_panel_def open_all_panels_def close_all_panels_def fmt_02d_0)

text \<open>
  C4, as stated, fails: the simulator accepts the frame \<^verbatim>\<open>:OP1\<close> and opens panel 1, but
  the frame that \<open>open_panel\<close> builds for panel 1 is \<^verbatim>\<open>:OP01\<close>.
\<close>

theorem roundtrip_counterexample:
  "startsWith (js_of '':OP1'') (js_of '':OP'')
   \<and> parseInt (substring (js_of '':OP1'') 3) = Some 1
   \<and> updatePanelsFromCommand initializeDome (js_of '':OP1'') =
       Inr (initializeDome[0 := setPanelState (initializeDome ! 0) ''open''])
   \<and> open_panel \<lparr>HAS_REQUESTS = False, http = (\<lambda>w ev. Inl ''unreachable'')\<rparr>
         \<lparr>base_url = ''http://localhost:5000'', session = False\<rparr> 1 [] =
       (PyDict [(''success'', PyBool True), (''message'', PyStr ''Simulated: :OP01'')],
        [Print ''Simulated command: :OP01''])
   \<and> js_of '':OP01'' \<noteq> js_of '':OP1''"
proof -
  have p1: "parseInt [49] = Some 1"
    by (simp add: parseInt_def isWhiteSpace_def js_of_def Let_def isRadixDigit_def digitValue_def
        radixValue_def)
  have len: "length initializeDome = 16" by (simp add: initializeDome_def)
  show ?thesis
    by (simp add: startsWith_def substring_def js_of_def p1 update_OP setPanelAt_def len
        open_panel_def send_command_def fmt_02d_1)
qed

text \<open>
  C4, amended. Every frame that the API builds, \<^verbatim>\<open>:OP\<close> or \<^verbatim>\<open>:CL\<close> followed by a number
  from 0 to 16 in two digits (\<open>open_panel\<close> and \<open>close_panel\<close> for 1 to 16,
  \<open>open_all_panels\<close> and \<open>close_all_panels\<close> for 00), is read back by the simulator with
  the same opcode and number. For every frame that the simulator accepts with a number \<open>n\<close>
  from 0 to 16, the frame that the API builds for that opcode and \<open>n\<close> has the same effect
  on the panels, and it is the original frame, unit for unit, exactly when the original is
  one of the frames that the API builds.
\<close>

theorem roundtrip_canonical:
  "(0 \<le> t \<and> t \<le> 16 \<longrightarrow>
      startsWith (js_of ('':OP'' @ fmt_02d t)) (js_of '':OP'')
      \<and> parseInt (substring (js_of ('':OP'' @ fmt_02d t)) 3) = Some t
      \<and> startsWith (js_of ('':CL'' @ fmt_02d t)) (js_of '':CL'')
      \<and> parseInt (substring (js_of ('':CL'' @ fmt_02d t)) 3) = Some t)
   \<and> (startsWith f (js_of '':OP'') \<and> parseInt (substring f 3) = Some n \<and> 0 \<le> n \<and> n \<le> 16 \<longrightarrow>
        (if n = 0 then open_all_panels env self w else open_panel env self n w) =
          send_command env self ('':OP'' @ fmt_02d n) w
        \<and> updatePanelsFromCommand ps (js_of ('':OP'' @ fmt_02d n)) = updatePanelsFromCommand ps f
        \<and> ((js_of ('':OP'' @ fmt_02d n) = f) =
            (\<exists>k. 0 \<le> k \<and> k \<le> 16 \<and> f = js_of ('':OP'' @ fmt_02d k))))
   \<and> (startsWith f (js_of '':CL'') \<and> parseInt (substring f 3) = Some n \<and> 0 \<le> n \<and> n \<le> 16 \<longrightarrow>
        (if n = 0 then close_all_panels env self w else close_panel env self n w) =
          send_command env self ('':CL'' @ fmt_02d n) w
        \<and> updatePanelsFromCommand ps (js_of ('':CL'' @ fmt_02d n)) = updatePanelsFromCommand ps f
        \<and> ((js_of ('':CL'' @ fmt_02d n) = f) =
            (\<exists>k. 0 \<le> k \<and> k \<le> 16 \<and> f = js_of ('':CL'' @ fmt_02d k))))"
proof -
  have A: "0 \<le> t \<and> t \<le> 16 \<longrightarrow>
      startsWith (js_of ('':OP'' @ fmt_02d t)) (js_of '':OP'')
      \<and> parseInt (substring (js_of ('':OP'' @ fmt_02d t)) 3) = Some t
      \<and> startsWith (js_of ('':CL'' @ fmt_02d t)) (js_of '':CL'')
      \<and> parseInt (substring (js_of ('':CL'' @ fmt_02d t)) 3) = Some t"
    using canonical_OP [of t] canonical_CL [of t] by blast
  have B: "0 \<le> n \<and> n \<le> 16 \<longrightarrow>
      (if n = 0 then open_all_panels env self w else open_panel env self n w) =
          send_command env self ('':OP'' @ fmt_02d n) w"
    using encoders(1) [of n env self w] encoders(3) [of env self w] by auto
  have C: "0 \<le> n \<and> n \<le> 16 \<longrightarrow>
      (if n = 0 then close_all_panels env self w else close_panel env self n w) =
          send_command env self ('':CL'' @ fmt_02d n) w"
    using encoders(2) [of n env self w] encoders(4) [of env self w] by auto
  have E: "startsWith f (js_of '':OP'') \<and> parseInt (substring f 3) = Some n \<and> 0 \<le> n \<and> n \<le> 16 \<longrightarrow>
        updatePanelsFromCommand ps (js_of ('':OP'' @ fmt_02d n)) = updatePanelsFromCommand ps f
        \<and> ((js_of ('':OP'' @ fmt_02d n) = f) =
            (\<exists>k. 0 \<le> k \<and> k \<le> 16 \<and> f = js_of ('':OP'' @ fmt_02d k)))"
    using reencode_OP [of f n ps] exact_OP [of f n] by blast
  have F: "startsWith f (js_of '':CL'') \<and> parseInt (substring f 3) = Some n \<and> 0 \<le> n \<and> n \<le> 16 \<longrightarrow>
        updatePanelsFromCommand ps (js_of ('':CL'' @ fmt_02d n)) = updatePanelsFromCommand ps f
        \<and> ((js_of ('':CL'' @ fmt_02d n) = f) =
            (\<exists>k. 0 \<le> k \<and> k \<le> 16 \<and> f = js_of ('':CL'' @ fmt_02d k)))"
    using reencode_CL [of f n ps] exact_CL [of f n] by blast
  from A B C E F show ?thesis
    by blast
qed

theorem roundtrip_canonical_witness:
  "(0::int) \<le> 7 \<and> (7::int) \<le> 16 \<and> (1::int) \<le> 7
   \<and> startsWith (js_of '':OP 7'') (js_of '':OP'')
   \<and> parseInt (substring (js_of '':OP 7'') 3) = Some 7
   \<and> parseInt (substring (js_of '':OP07'') 3) = Some 7
   \<and> updatePanelsFromCommand initializeDome (js_of '':OP07'') =
       updatePanelsFromCommand initializeDome (js_of '':OP 7'')
   \<and> js_of '':OP07'' \<noteq> js_of '':OP 7''
   \<and> startsWith (js_of '':CL+7'') (js_of '':CL'')
   \<and> parseInt (substring (js_of '':CL+7'') 3) = Some 7
   \<and> updatePanelsFromCommand initializeDome (js_of '':CL07'') =
       updatePanelsFromCommand initializeDome (js_of '':CL+7'')"
proof -
  have f7: "fmt_02d 7 = ''07''" by code_simp
  have sw: "startsWith (js_of '':OP 7'') (js_of '':OP'')"
    by (simp add: startsWith_def js_of_def)
  have p7: "parseInt (substring (js_of '':OP 7'') 3) = Some 7"
    by (simp add: substring_def parseInt_def isWhiteSpace_def js_of_def Let_def isRadixDigit_def
        digitValue_def radixValue_def)
  have swc: "startsWith (js_of '':CL+7'') (js_of '':CL'')"
    by (simp add: startsWith_def js_of_def)
  have pc7: "parseInt (substring (js_of '':CL+7'') 3) = Some 7"
    by (simp add: substring_def parseInt_def isWhiteSpace_def js_of_def Let_def isRadixDigit_def
        digitValue_def radixValue_def)
  have ne: "js_of '':OP07'' \<noteq> js_of '':OP 7''"
    by (simp add: js_of_def)
  note r = roundtrip_canonical [where t = 7 and f = "js_of '':OP 7''" and n = 7
      and ps = initializeDome]
  note rc = roundtrip_canonical [where t = 7 and f = "js_of '':CL+7''" and n = 7
      and ps = initializeDome]
  have a: "parseInt (substring (js_of ('':OP'' @ fmt_02d 7)) 3) = Some 7"
    using r by simp
  have b: "updatePanelsFromCommand initializeDome (js_of ('':OP'' @ fmt_02d 7)) =
       updatePanelsFromCommand initializeDome (js_of '':OP 7'')"
    using r sw p7 by simp
  have c: "updatePanelsFromCommand initializeDome (js_of ('':CL'' @ fmt_02d 7)) =
       updatePanelsFromCommand initializeDome (js_of '':CL+7'')"
    using rc swc pc7 by simp
  from sw p7 a b ne swc pc7 c show ?thesis
    by (simp add: f7)
qed

text \<open>
  C10. In simulation mode, after any list of calls of the API (opening and closing panels,
  running sequences, resetting), \<open>get_panels\<close> returns sixteen times \<^verbatim>\<open>False\<close> and
  \<open>get_status\<close> reports \<^verbatim>\<open>all_closed\<close>.
\<close>

theorem simulated_queries_stateless:
  assumes "\<not> HAS_REQUESTS env"
  shows "fst (get_panels env self (run_calls env self calls w)) =
           PyDict [(''success'', PyBool True), (''panels'', PyList (replicate 16 (PyBool False)))]
       \<and> fst (get_status env self (run_calls env self calls w)) =
           PyDict [(''success'', PyBool True), (''status'', PyStr ''simulation_mode''),
                   (''panels'', PyStr ''all_closed'')]"
  using assms by (simp add: get_panels_def get_status_def)

theorem simulated_queries_stateless_witness:
  "\<not> HAS_REQUESTS \<lparr>HAS_REQUESTS = False, http = (\<lambda>w ev. Inl [])\<rparr>
   \<and> run_calls \<lparr>HAS_REQUESTS = False, http = (\<lambda>w ev. Inl [])\<rparr>
         \<lparr>base_url = ''http://localhost:5000'', session = False\<rparr>
         [OpenPanel 3, OpenAllPanels, ClosePanel 99] [] =
       [Print ''Simulated command: :OP03'', Print ''Simulated command: :OP00'']
   \<and> fst (get_panels \<lparr>HAS_REQUESTS = False, http = (\<lambda>w ev. Inl [])\<rparr>
         \<lparr>base_url = ''http://localhost:5000'', session = False\<rparr>
         [Print ''Simulated command: :OP03'', Print ''Simulated command: :OP00'']) =
       PyDict [(''success'', PyBool True), (''panels'', PyList (replicate 16 (PyBool False)))]"
proof -
  have f3: "fmt_02d 3 = ''03''" by code_simp
  have rc: "run_calls \<lparr>HAS_REQUESTS = False, http = (\<lambda>w ev. Inl [])\<rparr>
         \<lparr>base_url = ''http://localhost:5000'', session = False\<rparr>
         [OpenPanel 3, OpenAllPanels, ClosePanel 99] [] =
       [Print ''Simulated command: :OP03'', Print ''Simulated command: :OP00'']"
    by (simp add: open_panel_def close_panel_def open_all_panels_def send_command_def f3)
  have sim: "\<not> HAS_REQUESTS \<lparr>HAS_REQUESTS = False, http = (\<lambda>w ev. Inl [])\<rparr>"
    by simp
  note q = simulated_queries_stateless [OF sim,
      of "\<lparr>base_url = ''http://localhost:5000'', session = False\<rparr>"
        "[OpenPanel 3, OpenAllPanels, ClosePanel 99]" "[]", unfolded rc]
  show ?thesis
    using sim rc q by blast
qed

subsection \<open>Sequence data\<close>

lemma currentSequence_step:
  "currentSequence (sim_step now ev sim) = currentSequence sim
   \<or> currentSequence (sim_step now ev sim) = Some waveSequence
   \<or> currentSequence (sim_step now ev sim) = Some screamSequence"
  by (cases ev)
     (auto simp: sendCommand_def loadWaveSequence_def loadScreamSequence_def loadSequence_def
        startSequence_def pauseSequence_def resumeSequence_def stopSequence_def
        sequence_status_def clearLog_def refreshLog_def panel_click_def Let_def
        split: sum.splits js_error.splits)

lemma currentSequence_run:
  "currentSequence sim \<in> {None, Some waveSequence, Some screamSequence} \<Longrightarrow>
   currentSequence (sim_run evs sim) \<in> {None, Some waveSequence, Some screamSequence}"
proof (induction evs arbitrary: sim)
  case Nil
  then show ?case by simp
next
  case (Cons x evs)
  obtain now ev where x: "x = (now, ev)" by (cases x)
  have "currentSequence (sim_step now ev sim) \<in> {None, Some waveSequence, Some screamSequence}"
    using Cons.prems currentSequence_step [of now ev sim] by auto
  then show ?case
    using Cons.IH x by simp
qed

lemma valid_wave: "valid_sequence waveSequence"
  by (simp add: valid_sequence_def waveSequence_def valid_position_def)

lemma valid_scream: "valid_sequence screamSequence"
  by (simp add: valid_sequence_def screamSequence_def valid_position_def)

text \<open>
  C7. The Wave and Scream sequences satisfy the invariant on positions. \<open>loadSequence\<close>
  stores the sequence it is given when the server answers with success, and the handlers
  call it with Wave and with Scream only: after any list of events the current sequence
  of the simulator, if there is one, is Wave or Scream, and every position of every step
  of it lies between 500 and 2500 or is one of the four constants.
\<close>

theorem sequence_positions_valid:
  "valid_sequence waveSequence \<and> valid_sequence screamSequence
   \<and> currentSequence (loadSequence now sequenceData (Inr r) sim) =
       (if r_success r then Some sequenceData else currentSequence sim)
   \<and> (\<forall>s. currentSequence (sim_run evs (new_simulator initial_log)) = Some s \<longrightarrow>
          (s = waveSequence \<or> s = screamSequence)
          \<and> (\<forall>st \<in> set (steps s). \<forall>p \<in> set (servo_positions st). valid_position p))"
proof -
  have c: "currentSequence (sim_run evs (new_simulator initial_log))
      \<in> {None, Some waveSequence, Some screamSequence}"
    by (rule currentSequence_run) (simp add: new_simulator_def)
  have w: "\<forall>st \<in> set (steps waveSequence). \<forall>p \<in> set (servo_positions st). valid_position p"
    using valid_wave by (simp add: valid_sequence_def list_all_iff)
  have s: "\<forall>st \<in> set (steps screamSequence). \<forall>p \<in> set (servo_positions st). valid_position p"
    using valid_scream by (simp add: valid_sequence_def list_all_iff)
  have l: "currentSequence (loadSequence now sequenceData (Inr r) sim) =
       (if r_success r then Some sequenceData else currentSequence sim)"
    by (simp add: loadSequence_def)
  show ?thesis
    using c w s l valid_wave valid_scream by auto
qed

theorem sequence_positions_valid_witness:
  "currentSequence (sim_run [(js_of ''12:00:00'',
       LoadWaveSequence (Inr \<lparr>r_success = True, r_message = [], r_error = [], r_steps = js_of ''6''\<rparr>))]
     (new_simulator [])) = Some waveSequence
   \<and> \<lparr>time_ms = 300,
       servo_positions = [1000, 2000, 2000, 2000, 2000, 2000, 2000, 2000, 2000, 2000, 2000, 2000],
       step_description = ''Open panel 1''\<rparr> \<in> set (steps waveSequence)
   \<and> valid_position 1000"
proof -
  let ?evs = "[(js_of ''12:00:00'',
       LoadWaveSequence (Inr \<lparr>r_success = True, r_message = [], r_error = [], r_steps = js_of ''6''\<rparr>))]"
  let ?st = "\<lparr>time_ms = 300,
       servo_positions = [1000, 2000, 2000, 2000, 2000, 2000, 2000, 2000, 2000, 2000, 2000, 2000],
       step_description = ''Open panel 1''\<rparr>"
  have c: "currentSequence (sim_run ?evs (new_simulator [])) = Some waveSequence"
    by (simp add: loadWaveSequence_def loadSequence_def)
  have m: "?st \<in> set (steps waveSequence)"
    by (simp add: waveSequence_def)
  have q: "1000 \<in> set (servo_positions ?st)"
    by simp
  note t = sequence_positions_valid [where evs = ?evs and initial_log = "[]"]
  have "valid_position 1000"
    using t c m q by blast
  with c m show ?thesis
    by (intro conjI)
qed




subsection \<open>The protocol core\<close>

text \<open>
  The decoder of the specification on the frames that \<open>open_panel\<close> can build: a number
  from 1 to 16 is the actuator of that number, 0 is the target for all, and any other
  number is an argument error.
\<close>

lemma length_str_nat_small: "n < 10 \<Longrightarrow> length (str_nat n) = 1"
  by (subst str_nat.simps) simp

lemma length_str_nat_two: "10 \<le> n \<Longrightarrow> n < 100 \<Longrightarrow> length (str_nat n) = 2"
  by (subst str_nat.simps) (simp add: length_str_nat_small)

lemma length_str_nat_ge: "10 \<le> n \<Longrightarrow> 2 \<le> length (str_nat n)"
  by (subst str_nat.simps) (use str_nat_nonempty [of "n div 10"] in \<open>cases "str_nat (n div 10)"; simp\<close>)

lemma length_str_nat_big: "100 \<le> n \<Longrightarrow> 3 \<le> length (str_nat n)"
  by (subst str_nat.simps) (use length_str_nat_ge [of "n div 10"] in simp)

lemma length_zfill2: "n < 100 \<Longrightarrow> length (zfill 2 (str_nat n)) = 2"
  by (cases "n < 10") (simp_all add: zfill_def length_str_nat_small length_str_nat_two)

lemma isDigit_of_radix10: "isRadixDigit 10 (of_char c) \<Longrightarrow> isDigit c"
  by (auto simp: isRadixDigit_def digitValue_def isDigit_def split: if_splits)

lemma spec_decode_OP:
  "spec_decode (CHR '':'' # CHR ''O'' # CHR ''P'' # rest) =
     Some (if length rest = 2 \<and> list_all isDigit rest
           then (if 16 < radixValue 10 (js_of rest) then Inl ArgumentError
                 else Inr \<lparr>family = Panel, opcode = ''OP'',
                           target = (if radixValue 10 (js_of rest) = 0 then AllTargets
                                     else Actuator (radixValue 10 (js_of rest))),
                           arguments = [], raw = CHR '':'' # CHR ''O'' # CHR ''P'' # rest\<rparr>)
           else Inl ArgumentError)"
  by (simp add: spec_decode_def spec_decode_panel_def Let_def)

lemma fmt_02d_value:
  "0 \<le> t \<Longrightarrow> radixValue 10 (js_of (fmt_02d t)) = nat t"
  by (simp add: fmt_02d_def js_of_zfill radixValue_zeros radixValue_str_nat)

lemma spec_decode_open_panel:
  assumes "0 \<le> t" "t \<le> 16"
  shows "spec_decode ('':OP'' @ fmt_02d t) =
           Some (Inr \<lparr>family = Panel, opcode = ''OP'',
                      target = (if t = 0 then AllTargets else Actuator (nat t)),
                      arguments = [], raw = '':OP'' @ fmt_02d t\<rparr>)"
proof -
  have f: "fmt_02d t = zfill 2 (str_nat (nat t))"
    using assms by (simp add: fmt_02d_def)
  have l: "length (fmt_02d t) = 2"
    using assms by (simp add: f length_zfill2)
  have "\<forall>c \<in> set (fmt_02d t). isRadixDigit 10 (of_char c)"
    unfolding f using zfill_digits [of _ 2 "nat t"] by (auto simp: js_of_def)
  then have d: "list_all isDigit (fmt_02d t)"
    unfolding list_all_iff using isDigit_of_radix10 by blast
  have v: "radixValue 10 (js_of (fmt_02d t)) = nat t"
    using assms(1) by (rule fmt_02d_value)
  show ?thesis
    using assms l d v by (auto simp: spec_decode_OP)
qed

lemma spec_decode_out_of_range:
  assumes "t < 0 \<or> 16 < t"
  shows "spec_decode ('':OP'' @ fmt_02d t) = Some (Inl ArgumentError)"
proof (cases "t < 0")
  case True
  then have "\<not> list_all isDigit (fmt_02d t)"
    by (simp add: fmt_02d_def isDigit_def)
  then show ?thesis by (simp add: spec_decode_OP)
next
  case False
  with assms have t: "16 < t" by simp
  have f: "fmt_02d t = zfill 2 (str_nat (nat t))"
    using t by (simp add: fmt_02d_def)
  show ?thesis
  proof (cases "t < 100")
    case True
    have v: "radixValue 10 (js_of (fmt_02d t)) = nat t"
      using t by (intro fmt_02d_value) simp
    have "16 < nat t" using t by simp
    then show ?thesis
      using v by (simp add: spec_decode_OP)
  next
    case False
    then have "3 \<le> length (str_nat (nat t))"
      by (intro length_str_nat_big) simp
    then have "length (fmt_02d t) \<noteq> 2"
      by (simp add: f zfill_def)
    then show ?thesis by (simp add: spec_decode_OP)
  qed
qed

lemma engine_inv_new: "engine_inv (new_engine reg)"
  by (simp add: engine_inv_def new_engine_def)

lemma engine_inv_start:
  assumes "engine_inv e" "engine_start ref e = Inr e'"
  shows "engine_inv e'"
  using assms
  by (auto simp: engine_inv_def engine_start_def Let_def is_active_def
      split: option.splits if_splits)
     fastforce+

lemma engine_inv_apply: "engine_inv e \<Longrightarrow> engine_inv (engine_apply x e)"
proof (cases x)
  case (Start ref)
  assume "engine_inv e"
  then show ?thesis
    using Start engine_inv_start [of e ref]
    by (auto split: sum.splits)
next
  case Stop
  assume "engine_inv e"
  then show ?thesis
    using Stop
    by (auto simp: engine_inv_def engine_stop_def is_active_def split: option.splits if_splits)
next
  case Pause
  assume "engine_inv e"
  then show ?thesis
    using Pause
    by (auto simp: engine_inv_def engine_pause_def is_active_def split: option.splits if_splits)
next
  case Resume
  assume "engine_inv e"
  then show ?thesis
    using Resume
    by (auto simp: engine_inv_def engine_resume_def is_active_def split: option.splits if_splits)
next
  case (Tick dt)
  assume "engine_inv e"
  then show ?thesis
    using Tick
    by (auto simp: engine_inv_def engine_tick_def is_active_def Let_def split: option.splits if_splits)
qed

lemma engine_inv_run: "engine_inv e \<Longrightarrow> engine_inv (engine_run xs e)"
  by (induction xs arbitrary: e) (simp_all add: engine_inv_apply)

lemma registry_apply: "registry (engine_apply x e) = registry e"
  by (cases x)
     (auto simp: engine_start_def engine_stop_def engine_pause_def engine_resume_def
        engine_tick_def Let_def split: option.splits if_splits sum.splits)

lemma registry_run: "registry (engine_run xs e) = registry e"
  by (induction xs arbitrary: e) (simp_all add: registry_apply)

lemma newer_run_apply:
  assumes "newer_run rid e"
  shows "newer_run rid (engine_apply x e)
       \<and> filter (\<lambda>(orig, c). orig = Run rid) (hal_log (engine_apply x e)) =
           filter (\<lambda>(orig, c). orig = Run rid) (hal_log e)
       \<and> filter (\<lambda>n. note_run n = rid \<and> note_reason n = Superseded) (notifications (engine_apply x e)) =
           filter (\<lambda>n. note_run n = rid \<and> note_reason n = Superseded) (notifications e)"
proof (cases x)
  case (Start ref)
  then show ?thesis
    using assms
    by (auto simp: newer_run_def engine_start_def Let_def split: option.splits if_splits)
next
  case Stop
  then show ?thesis
    using assms
    by (auto simp: newer_run_def engine_stop_def split: option.splits if_splits)
next
  case Pause
  then show ?thesis
    using assms
    by (auto simp: newer_run_def engine_pause_def split: option.splits if_splits)
next
  case Resume
  then show ?thesis
    using assms
    by (auto simp: newer_run_def engine_resume_def split: option.splits if_splits)
next
  case (Tick dt)
  then show ?thesis
    using assms
    by (auto simp: newer_run_def engine_tick_def Let_def filter_empty_conv
        split: option.splits if_splits)
qed

lemma newer_run_run:
  "newer_run rid e \<Longrightarrow>
     filter (\<lambda>(orig, c). orig = Run rid) (hal_log (engine_run xs e)) =
       filter (\<lambda>(orig, c). orig = Run rid) (hal_log e)
     \<and> filter (\<lambda>n. note_run n = rid \<and> note_reason n = Superseded) (notifications (engine_run xs e)) =
       filter (\<lambda>n. note_run n = rid \<and> note_reason n = Superseded) (notifications e)"
proof (induction xs arbitrary: e)
  case Nil
  then show ?case by simp
next
  case (Cons x xs)
  from newer_run_apply [OF Cons.prems, of x]
  have n: "newer_run rid (engine_apply x e)"
    and h: "filter (\<lambda>(orig, c). orig = Run rid) (hal_log (engine_apply x e)) =
            filter (\<lambda>(orig, c). orig = Run rid) (hal_log e)"
    and s: "filter (\<lambda>n. note_run n = rid \<and> note_reason n = Superseded) (notifications (engine_apply x e)) =
            filter (\<lambda>n. note_run n = rid \<and> note_reason n = Superseded) (notifications e)"
    by simp_all
  from Cons.IH [OF n] h s show ?case by simp
qed

lemma wave_started:
  "engine_run [Start (SeqId 2), Tick 200] (new_engine builtin_catalogue) =
     \<lparr>registry = builtin_catalogue,
      active = Some \<lparr>run_id = 0, run_seq = waveSequence, current_step_index = 1,
                      run_state = Running, started_at = 0, elapsed_ms = 200\<rparr>,
      retired = [],
      hal_log = map (\<lambda>ch. (Run 0, SetPosition ch 2000)) [1..<13],
      notifications = [], next_run_id = 1, clock = 200\<rparr>"
  by (simp add: engine_start_def engine_tick_def new_engine_def builtin_catalogue_def Let_def
      step_calls_def NP_def waveSequence_def upt_rec)

text \<open>
  The three frames of the end-to-end scenario in the dispatcher of the specification: the
  frames \<^verbatim>\<open>:OP01\<close>, \<^verbatim>\<open>:CL01\<close>, \<^verbatim>\<open>:SE02\<close> give the HAL calls
  \<^verbatim>\<open>servos.set_position(1, OPEN)\<close> and \<^verbatim>\<open>servos.set_position(1, CLOSED)\<close> and start Wave at
  step 0, whatever the number \<open>n\<close> of panel actuators is. The tick that reaches the first
  step of Wave issues calls for the channels 1 to 12, the ones the step lists.
\<close>

lemma spec_scenario:
  "spec_process n (\<lambda>c. True) ['':OP01'', '':CL01'', '':SE02''] (new_engine builtin_catalogue) =
     Some ([\<lparr>result_ok = True, result_message = ''ok''\<rparr>,
            \<lparr>result_ok = True, result_message = ''ok''\<rparr>,
            \<lparr>result_ok = True, result_message = ''ok''\<rparr>],
           \<lparr>registry = builtin_catalogue,
            active = Some \<lparr>run_id = 0, run_seq = waveSequence, current_step_index = 0,
                            run_state = Running, started_at = 0, elapsed_ms = 0\<rparr>,
            retired = [],
            hal_log = [(Direct, SetPosition 1 OPN), (Direct, SetPosition 1 CLS)],
            notifications = [], next_run_id = 1, clock = 0\<rparr>)
   \<and> map_of builtin_catalogue (SeqId 2) = Some waveSequence
   \<and> step_calls (hd (steps waveSequence)) = map (\<lambda>ch. SetPosition ch CLS) [1..<13]
   \<and> hal_log (engine_tick 200
           \<lparr>registry = builtin_catalogue,
            active = Some \<lparr>run_id = 0, run_seq = waveSequence, current_step_index = 0,
                            run_state = Running, started_at = 0, elapsed_ms = 0\<rparr>,
            retired = [],
            hal_log = [(Direct, SetPosition 1 OPN), (Direct, SetPosition 1 CLS)],
            notifications = [], next_run_id = 1, clock = 0\<rparr>) =
       [(Direct, SetPosition 1 OPN), (Direct, SetPosition 1 CLS)] @
       map (\<lambda>ch. (Run 0, SetPosition ch CLS)) [1..<13]"
proof -
  have d1: "spec_decode '':OP01'' =
      Some (Inr \<lparr>family = Panel, opcode = ''OP'', target = Actuator 1, arguments = [], raw = '':OP01''\<rparr>)"
    by (simp add: spec_decode_def spec_decode_panel_def isDigit_def radixValue_def digitValue_def
        js_of_def)
  have d2: "spec_decode '':CL01'' =
      Some (Inr \<lparr>family = Panel, opcode = ''CL'', target = Actuator 1, arguments = [], raw = '':CL01''\<rparr>)"
    by (simp add: spec_decode_def spec_decode_panel_def isDigit_def radixValue_def digitValue_def
        js_of_def)
  have d3: "spec_decode '':SE02'' =
      Some (Inr \<lparr>family = Panel, opcode = ''SE'', target = Actuator 2, arguments = [], raw = '':SE02''\<rparr>)"
    by (simp add: spec_decode_def spec_decode_panel_def isDigit_def radixValue_def digitValue_def
        js_of_def)
  have m: "map_of builtin_catalogue (SeqId 2) = Some waveSequence"
    by (simp add: builtin_catalogue_def)
  have p: "spec_process n (\<lambda>c. True) ['':OP01'', '':CL01'', '':SE02''] (new_engine builtin_catalogue) =
     Some ([\<lparr>result_ok = True, result_message = ''ok''\<rparr>,
            \<lparr>result_ok = True, result_message = ''ok''\<rparr>,
            \<lparr>result_ok = True, result_message = ''ok''\<rparr>],
           \<lparr>registry = builtin_catalogue,
            active = Some \<lparr>run_id = 0, run_seq = waveSequence, current_step_index = 0,
                            run_state = Running, started_at = 0, elapsed_ms = 0\<rparr>,
            retired = [],
            hal_log = [(Direct, SetPosition 1 OPN), (Direct, SetPosition 1 CLS)],
            notifications = [], next_run_id = 1, clock = 0\<rparr>)"
    by (simp add: d1 d2 d3 spec_dispatch_def panel_move_def seq_ref_of_def engine_start_def
        new_engine_def m Let_def)
  have s: "step_calls (hd (steps waveSequence)) = map (\<lambda>ch. SetPosition ch CLS) [1..<13]"
    by (simp add: step_calls_def waveSequence_def NP_def CLS_def upt_rec)
  have t: "hal_log (engine_tick 200
           \<lparr>registry = builtin_catalogue,
            active = Some \<lparr>run_id = 0, run_seq = waveSequence, current_step_index = 0,
                            run_state = Running, started_at = 0, elapsed_ms = 0\<rparr>,
            retired = [],
            hal_log = [(Direct, SetPosition 1 OPN), (Direct, SetPosition 1 CLS)],
            notifications = [], next_run_id = 1, clock = 0\<rparr>) =
       [(Direct, SetPosition 1 OPN), (Direct, SetPosition 1 CLS)] @
       map (\<lambda>ch. (Run 0, SetPosition ch CLS)) [1..<13]"
    by (simp add: engine_tick_def Let_def step_calls_def NP_def CLS_def waveSequence_def upt_rec)
  from p m s t show ?thesis
    by (intro conjI)
qed

text \<open>
  C6. Let the engine, after any history, hold a Running run \<open>a\<close>, and let \<open>b\<close> be a
  registered sequence. Starting \<open>b\<close> retires \<open>a\<close> as Stopped, emits one notification with
  reason Superseded for \<open>a\<close>, and installs a new run of \<open>b\<close> at step 0, Running. Whatever
  the engine does later, the HAL calls issued for \<open>a\<close> stay those issued before, and that
  notification stays the only one with reason Superseded for \<open>a\<close>.
\<close>

theorem supersession:
  assumes "e = engine_run history (new_engine reg)"
    and "active e = Some a" and "run_state a = Running"
    and "map_of reg b = Some sb"
  shows "engine_start b e =
           Inr (e\<lparr>retired := retired e @ [a\<lparr>run_state := Stopped\<rparr>],
                  notifications := notifications e @
                    [\<lparr>note_run = run_id a, note_reason = Superseded,
                      total_elapsed_ms = elapsed_ms a, step_count = current_step_index a\<rparr>],
                  active := Some \<lparr>run_id = next_run_id e, run_seq = sb, current_step_index = 0,
                                  run_state = Running, started_at = clock e, elapsed_ms = 0\<rparr>,
                  next_run_id := Suc (next_run_id e)\<rparr>)
       \<and> filter (\<lambda>(orig, c). orig = Run (run_id a))
             (hal_log (engine_run later (engine_apply (Start b) e))) =
           filter (\<lambda>(orig, c). orig = Run (run_id a)) (hal_log e)
       \<and> filter (\<lambda>n. note_run n = run_id a \<and> note_reason n = Superseded)
             (notifications (engine_run later (engine_apply (Start b) e))) =
           [\<lparr>note_run = run_id a, note_reason = Superseded,
             total_elapsed_ms = elapsed_ms a, step_count = current_step_index a\<rparr>]"
proof -
  have inv: "engine_inv e"
    using assms(1) by (simp add: engine_inv_run engine_inv_new)
  have reg: "map_of (registry e) b = Some sb"
    using assms(1,4) by (simp add: registry_run new_engine_def)
  have act: "is_active a"
    using assms(3) by (simp add: is_active_def)
  let ?e' = "e\<lparr>retired := retired e @ [a\<lparr>run_state := Stopped\<rparr>],
                  notifications := notifications e @
                    [\<lparr>note_run = run_id a, note_reason = Superseded,
                      total_elapsed_ms = elapsed_ms a, step_count = current_step_index a\<rparr>],
                  active := Some \<lparr>run_id = next_run_id e, run_seq = sb, current_step_index = 0,
                                  run_state = Running, started_at = clock e, elapsed_ms = 0\<rparr>,
                  next_run_id := Suc (next_run_id e)\<rparr>"
  have start: "engine_start b e = Inr ?e'"
    using reg act assms(2) by (simp add: engine_start_def Let_def)
  then have app: "engine_apply (Start b) e = ?e'" by simp
  have idlt: "run_id a < next_run_id e"
    using inv assms(2) by (simp add: engine_inv_def)
  have none: "filter (\<lambda>n. note_run n = run_id a \<and> note_reason n = Superseded) (notifications e) = []"
    using inv assms(2) act by (auto simp: engine_inv_def filter_empty_conv)
  have newer: "newer_run (run_id a) ?e'"
    using idlt by (simp add: newer_run_def)
  from newer_run_run [OF newer, of later]
  show ?thesis
    unfolding app using start none by simp
qed

theorem supersession_witness:
  "engine_run [Start (SeqId 2), Tick 200] (new_engine builtin_catalogue) =
     \<lparr>registry = builtin_catalogue,
      active = Some \<lparr>run_id = 0, run_seq = waveSequence, current_step_index = 1,
                      run_state = Running, started_at = 0, elapsed_ms = 200\<rparr>,
      retired = [],
      hal_log = map (\<lambda>ch. (Run 0, SetPosition ch 2000)) [1..<13],
      notifications = [], next_run_id = 1, clock = 200\<rparr>
   \<and> map_of builtin_catalogue (SeqId 1) = Some screamSequence
   \<and> filter (\<lambda>n. note_run n = 0 \<and> note_reason n = Superseded)
        (notifications (engine_run [Tick 1000, Tick 1000]
           (engine_apply (Start (SeqId 1))
              (engine_run [Start (SeqId 2), Tick 200] (new_engine builtin_catalogue))))) =
       [\<lparr>note_run = 0, note_reason = Superseded, total_elapsed_ms = 200, step_count = 1\<rparr>]
   \<and> filter (\<lambda>(orig, c). orig = Run 0)
        (hal_log (engine_run [Tick 1000, Tick 1000]
           (engine_apply (Start (SeqId 1))
              (engine_run [Start (SeqId 2), Tick 200] (new_engine builtin_catalogue))))) =
       map (\<lambda>ch. (Run 0, SetPosition ch 2000)) [1..<13]"
proof -
  let ?a = "\<lparr>run_id = 0, run_seq = waveSequence, current_step_index = 1,
              run_state = Running, started_at = 0, elapsed_ms = 200\<rparr>"
  let ?e = "engine_run [Start (SeqId 2), Tick 200] (new_engine builtin_catalogue)"
  have m: "map_of builtin_catalogue (SeqId 1) = Some screamSequence"
    by (simp add: builtin_catalogue_def)
  have act: "active ?e = Some ?a"
    by (simp only: wave_started engine.simps)
  have run: "run_state ?a = Running" by simp
  have hl: "hal_log ?e = map (\<lambda>ch. (Run 0, SetPosition ch 2000)) [1..<13]"
    by (simp only: wave_started engine.simps)
  have fl: "filter (\<lambda>(orig, c). orig = Run 0) (map (\<lambda>ch. (Run 0, SetPosition ch 2000)) [1..<13]) =
      map (\<lambda>ch. (Run 0, SetPosition ch 2000)) [1..<13]"
    by (simp add: filter_map comp_def)
  note s = supersession [OF refl act run m, of "[Tick 1000, Tick 1000]"]
  have c1: "filter (\<lambda>(orig, c). orig = Run 0)
        (hal_log (engine_run [Tick 1000, Tick 1000] (engine_apply (Start (SeqId 1)) ?e))) =
      filter (\<lambda>(orig, c). orig = Run 0) (hal_log ?e)"
    using s by (simp only: sequence_run.simps)
  have c2: "filter (\<lambda>n. note_run n = 0 \<and> note_reason n = Superseded)
        (notifications (engine_run [Tick 1000, Tick 1000] (engine_apply (Start (SeqId 1)) ?e))) =
      [\<lparr>note_run = 0, note_reason = Superseded, total_elapsed_ms = 200, step_count = 1\<rparr>]"
    using s by (simp only: sequence_run.simps)
  have c1': "filter (\<lambda>(orig, c). orig = Run 0)
        (hal_log (engine_run [Tick 1000, Tick 1000] (engine_apply (Start (SeqId 1)) ?e))) =
      map (\<lambda>ch. (Run 0, SetPosition ch 2000)) [1..<13]"
    using c1 by (simp only: hl fl)
  from wave_started m c2 c1' show ?thesis
    by (intro conjI)
qed

text \<open>
  C8. When the stored checksum differs from the checksum of the stored fields, \<open>load\<close>
  yields a store (there is no failure value) that holds the compiled-in defaults, so
  that reading the slave delay gives the default, and that is marked dirty; the next
  \<open>save\<close> writes the defaults with their own checksum.
\<close>

theorem config_checksum_fallback:
  "crc (stored p) \<noteq> checksum p \<Longrightarrow>
     config_load crc defaults p = \<lparr>config = defaults, dirty = True, warnings = [ConfigChecksumMismatch]\<rparr>
     \<and> config_get slave_delay_ms (config_load crc defaults p) = slave_delay_ms defaults
     \<and> fst (config_save crc (config_load crc defaults p)) = \<lparr>stored = defaults, checksum = crc defaults\<rparr>
     \<and> dirty (snd (config_save crc (config_load crc defaults p))) = False"
  by (simp add: config_load_def config_get_def config_save_def)

theorem config_checksum_fallback_witness:
  "calc_crc (stored \<lparr>stored = \<lparr>servo_directions = 5, startup_sound_mode = 1, quiet_mode = False,
                               slave_delay_ms = 50, active_sound_module = 1\<rparr>, checksum = 8\<rparr>)
     \<noteq> checksum \<lparr>stored = \<lparr>servo_directions = 5, startup_sound_mode = 1, quiet_mode = False,
                               slave_delay_ms = 50, active_sound_module = 1\<rparr>, checksum = 8\<rparr>
   \<and> config_get slave_delay_ms
        (config_load calc_crc
           \<lparr>servo_directions = 0, startup_sound_mode = 0, quiet_mode = False,
            slave_delay_ms = 0, active_sound_module = 0\<rparr>
           \<lparr>stored = \<lparr>servo_directions = 5, startup_sound_mode = 1, quiet_mode = False,
                       slave_delay_ms = 50, active_sound_module = 1\<rparr>, checksum = 8\<rparr>) = 0"
proof -
  have h: "calc_crc (stored \<lparr>stored = \<lparr>servo_directions = 5, startup_sound_mode = 1, quiet_mode = False,
                               slave_delay_ms = 50, active_sound_module = 1\<rparr>, checksum = 8\<rparr>)
     \<noteq> checksum \<lparr>stored = \<lparr>servo_directions = 5, startup_sound_mode = 1, quiet_mode = False,
                               slave_delay_ms = 50, active_sound_module = 1\<rparr>, checksum = 8\<rparr>"
    by (simp add: calc_crc_def)
  note c = config_checksum_fallback [of calc_crc
        "\<lparr>stored = \<lparr>servo_directions = 5, startup_sound_mode = 1, quiet_mode = False,
                    slave_delay_ms = 50, active_sound_module = 1\<rparr>, checksum = 8\<rparr>"
        "\<lparr>servo_directions = 0, startup_sound_mode = 0, quiet_mode = False,
            slave_delay_ms = 0, active_sound_module = 0\<rparr>", OF h]
  have d: "slave_delay_ms \<lparr>servo_directions = 0, startup_sound_mode = 0, quiet_mode = False,
            slave_delay_ms = 0, active_sound_module = 0\<rparr> = 0"
    by simp
  from h c show ?thesis
    unfolding d by blast
qed

end
